theory Spec2Isabelle
  imports Complex_Main
begin

section \<open>Values shared by the trainer and the server\<close>

text \<open>
  A Python float is a finite number, an infinity or NaN. A finite float is represented by
  the real number it denotes (the two signed zeros are identified). Comparisons and
  \<open>max\<close> of floats are exact, so they are modelled exactly; \<open>** 0.5\<close> rounds, so
  it is not computed here but taken from the environment of the trainer.
\<close>

datatype pyfloat = Finite real | PosInf | NegInf | NaN

text \<open>\<open>a < b\<close> on floats: false as soon as one side is NaN.\<close>

fun pf_lt :: "pyfloat \<Rightarrow> pyfloat \<Rightarrow> bool" where
  "pf_lt NaN _ = False"
| "pf_lt _ NaN = False"
| "pf_lt (Finite a) (Finite b) = (a < b)"
| "pf_lt (Finite a) PosInf = True"
| "pf_lt (Finite a) NegInf = False"
| "pf_lt PosInf _ = False"
| "pf_lt NegInf NegInf = False"
| "pf_lt NegInf _ = True"

text \<open>\<open>a >= b\<close> and \<open>a > b\<close> on floats.\<close>

definition pf_ge :: "pyfloat \<Rightarrow> pyfloat \<Rightarrow> bool" where
  "pf_ge a b = (pf_lt b a \<or> (a = b \<and> a \<noteq> NaN))"

definition pf_gt :: "pyfloat \<Rightarrow> pyfloat \<Rightarrow> bool" where
  "pf_gt a b = pf_lt b a"

text \<open>A number held by a request field: a float, or an int (\<open>zone_is_top50\<close>).\<close>

datatype pynum = PyFloat pyfloat | PyInt int

text \<open>
  A value read from or written to a JSON document, as Python holds it after
  \<open>json.load\<close>; \<open>JNull\<close> is Python's \<open>None\<close>. A \<open>JObj\<close> is a dict: its
  keys are distinct and kept in insertion order.
\<close>

datatype json =
    JNull
  | JBool bool
  | JInt int
  | JNum pyfloat
  | JStr string
  | JArr "json list"
  | JObj "(string \<times> json) list"

text \<open>The resources of the Artifact Store (\<open>config.py\<close>, lines 19-20 and 64-66).\<close>

datatype path = MODELS_DIR | MODEL_FILE | FEATURE_LIST_FILE | RESULTS_FILE

text \<open>
  Exceptions. \<open>LibraryError\<close> stands for whatever a library call raises
  (unpickling, JSON decoding, inference, metric computation, validation).
\<close>

datatype exn =
    FileNotFoundError path
  | FileExistsError path
  | IsADirectoryError path
  | AttributeError
  | IndexError
  | ValueError
  | LibraryError string
  | HTTPException nat string

text \<open>An access to the storage: each one is recorded when it is attempted.\<close>

datatype io = Exists path | Read path | Mkdir path | Write path

subsection \<open>\<open>config.py\<close>\<close>

definition FEATURE_COLUMNS :: "string list" where
  "FEATURE_COLUMNS =
     [''hour_sin'', ''hour_cos'',
      ''dow_sin'', ''dow_cos'',
      ''month_sin'', ''month_cos'',
      ''lag_1h'', ''lag_24h'', ''lag_168h'',
      ''diff_24h'',
      ''rolling_7d_mean'', ''rolling_7d_std'',
      ''rolling_14d_mean'', ''rolling_7d_cv'',
      ''zone_mean_demand'', ''zone_rank'', ''zone_is_top50'']"

definition XGBOOST_PARAMS :: "(string \<times> json) list" where
  "XGBOOST_PARAMS =
     [(''n_estimators'', JInt 500),
      (''max_depth'', JInt 6),
      (''learning_rate'', JNum (Finite (1 / 10))),
      (''subsample'', JNum (Finite (8 / 10))),
      (''colsample_bytree'', JNum (Finite (8 / 10))),
      (''random_state'', JInt 42),
      (''n_jobs'', JInt (- 1))]"

subsection \<open>The Artifact Store\<close>

text \<open>
  What a file holds is modelled by what its reader gets from it: a file written by
  \<open>pickle.dump\<close> unpickles to a Python object (a model, or \<open>None\<close>), a file written
  by \<open>json.dump\<close> parses to a JSON value, a text file holds its text, and \<open>Garbage\<close>
  is a file that neither \<open>pickle.load\<close> nor \<open>json.load\<close> accepts. Reading a file
  with the loader of another kind, or reading a directory, raises. A path that does not
  exist is \<open>None\<close> in the store. The three files live in the directory \<open>MODELS_DIR\<close>.
\<close>

datatype 'm content =
    Directory
  | Pickled "'m option"
  | Text string
  | JsonDoc json
  | Garbage

type_synonym 'm store = "path \<Rightarrow> 'm content option"

text \<open>\<open>pickle.load\<close> and \<open>json.load\<close> on an open file.\<close>

fun pickle_load :: "'m content \<Rightarrow> exn + 'm option" where
  "pickle_load (Pickled obj) = Inr obj"
| "pickle_load _ = Inl (LibraryError ''UnpicklingError'')"

fun json_load :: "'m content \<Rightarrow> exn + json" where
  "json_load (JsonDoc v) = Inr v"
| "json_load _ = Inl (LibraryError ''JSONDecodeError'')"


section \<open>The server (\<open>api.py\<close>)\<close>

text \<open>
  The library calls made by the server are parameters of the model:
  \<^item> \<open>model_predict m rows\<close> is \<open>m.predict(np.array(rows))\<close>: the predictions, one
    per row, or the exception raised;
  \<^item> \<open>validate_test_mae v\<close> is pydantic's validation of the value \<open>v\<close> given for the
    field \<open>test_mae: float = None\<close> of \<open>HealthResponse\<close>;
  \<^item> \<open>str_exn e\<close> is \<open>str(e)\<close>.
\<close>

record 'm lib =
  model_predict :: "'m \<Rightarrow> pynum list list \<Rightarrow> exn + pyfloat list"
  validate_test_mae :: "json \<Rightarrow> exn + pyfloat option"
  str_exn :: "exn \<Rightarrow> string"

text \<open>
  The state of the serving process: the globals \<open>_model\<close> and \<open>_results\<close>
  (lines 29-30), and the storage accesses made so far, oldest first. The log is
  instrumentation: no function reads it.
\<close>

record 'm proc =
  cached_model :: "'m option"
  cached_results :: json
  io_log :: "io list"

definition initial_proc :: "'m proc" where
  "initial_proc = \<lparr>cached_model = None, cached_results = JNull, io_log = []\<rparr>"

definition log_io :: "io \<Rightarrow> 'm proc \<Rightarrow> 'm proc" where
  "log_io ev p = p\<lparr>io_log := io_log p @ [ev]\<rparr>"

subsection \<open>\<open>load_model\<close>\<close>

text \<open>Lines 37-44: the model is read when \<open>_model is None\<close>.\<close>

definition load_model_file :: "'m store \<Rightarrow> 'm proc \<Rightarrow> (exn + unit) \<times> 'm proc" where
  "load_model_file st p =
     (if cached_model p = None then
        (let p1 = log_io (Exists MODEL_FILE) p in
         case st MODEL_FILE of
           None \<Rightarrow> (Inl (FileNotFoundError MODEL_FILE), p1)
         | Some f \<Rightarrow>
             (let p2 = log_io (Read MODEL_FILE) p1 in
              case pickle_load f of
                Inl e \<Rightarrow> (Inl e, p2)
              | Inr obj \<Rightarrow> (Inr (), p2\<lparr>cached_model := obj\<rparr>)))
      else (Inr (), p))"

text \<open>Lines 46-51: the results are read when \<open>_results is None\<close> and the file exists.\<close>

definition load_results_file :: "'m store \<Rightarrow> 'm proc \<Rightarrow> (exn + unit) \<times> 'm proc" where
  "load_results_file st p =
     (if cached_results p = JNull then
        (let p1 = log_io (Exists RESULTS_FILE) p in
         case st RESULTS_FILE of
           None \<Rightarrow> (Inr (), p1)
         | Some f \<Rightarrow>
             (let p2 = log_io (Read RESULTS_FILE) p1 in
              case json_load f of
                Inl e \<Rightarrow> (Inl e, p2)
              | Inr v \<Rightarrow> (Inr (), p2\<lparr>cached_results := v\<rparr>)))
      else (Inr (), p))"

definition load_model :: "'m store \<Rightarrow> 'm proc \<Rightarrow> (exn + 'm option \<times> json) \<times> 'm proc" where
  "load_model st p =
     (case load_model_file st p of
        (Inl e, p1) \<Rightarrow> (Inl e, p1)
      | (Inr _, p1) \<Rightarrow>
          (case load_results_file st p1 of
             (Inl e, p2) \<Rightarrow> (Inl e, p2)
           | (Inr _, p2) \<Rightarrow> (Inr (cached_model p2, cached_results p2), p2)))"

text \<open>
  A run of the process after some point: one call of \<open>load_model\<close> per element of the
  list, each against the store as it is at the time of that call.
\<close>

fun load_calls ::
  "'m store list \<Rightarrow> 'm proc \<Rightarrow> (exn + 'm option \<times> json) list \<times> 'm proc" where
  "load_calls [] p = ([], p)"
| "load_calls (st # sts) p =
     (case load_model st p of
        (r, p1) \<Rightarrow> (case load_calls sts p1 of (rs, p2) \<Rightarrow> (r # rs, p2)))"

subsection \<open>Request and response schemas\<close>

record PredictionRequest =
  hour_sin :: pyfloat
  hour_cos :: pyfloat
  dow_sin :: pyfloat
  dow_cos :: pyfloat
  month_sin :: pyfloat
  month_cos :: pyfloat
  lag_1h :: pyfloat
  lag_24h :: pyfloat
  lag_168h :: pyfloat
  diff_24h :: pyfloat
  rolling_7d_mean :: pyfloat
  rolling_7d_std :: pyfloat
  rolling_14d_mean :: pyfloat
  rolling_7d_cv :: pyfloat
  zone_mean_demand :: pyfloat
  zone_rank :: pyfloat
  zone_is_top50 :: int

record PredictionResponse =
  predicted_pickups :: pyfloat
  confidence :: string
  model_version :: string

record HealthResponse =
  status :: string
  model_loaded :: bool
  n_features :: nat
  test_mae :: "pyfloat option"

text \<open>\<open>getattr(request, name)\<close>: the field of the request class with that name.\<close>

definition request_field :: "PredictionRequest \<Rightarrow> string \<Rightarrow> pynum option" where
  "request_field r name =
     (if name = ''hour_sin'' then Some (PyFloat (hour_sin r))
      else if name = ''hour_cos'' then Some (PyFloat (hour_cos r))
      else if name = ''dow_sin'' then Some (PyFloat (dow_sin r))
      else if name = ''dow_cos'' then Some (PyFloat (dow_cos r))
      else if name = ''month_sin'' then Some (PyFloat (month_sin r))
      else if name = ''month_cos'' then Some (PyFloat (month_cos r))
      else if name = ''lag_1h'' then Some (PyFloat (lag_1h r))
      else if name = ''lag_24h'' then Some (PyFloat (lag_24h r))
      else if name = ''lag_168h'' then Some (PyFloat (lag_168h r))
      else if name = ''diff_24h'' then Some (PyFloat (diff_24h r))
      else if name = ''rolling_7d_mean'' then Some (PyFloat (rolling_7d_mean r))
      else if name = ''rolling_7d_std'' then Some (PyFloat (rolling_7d_std r))
      else if name = ''rolling_14d_mean'' then Some (PyFloat (rolling_14d_mean r))
      else if name = ''rolling_7d_cv'' then Some (PyFloat (rolling_7d_cv r))
      else if name = ''zone_mean_demand'' then Some (PyFloat (zone_mean_demand r))
      else if name = ''zone_rank'' then Some (PyFloat (zone_rank r))
      else if name = ''zone_is_top50'' then Some (PyInt (zone_is_top50 r))
      else None)"


subsection \<open>Python helpers used by the handlers\<close>

text \<open>The truth value of a Python value in \<open>if results\<close>.\<close>

fun truthy :: "json \<Rightarrow> bool" where
  "truthy JNull = False"
| "truthy (JBool b) = b"
| "truthy (JInt i) = (i \<noteq> 0)"
| "truthy (JNum x) = (x \<noteq> Finite 0)"
| "truthy (JStr s) = (s \<noteq> [])"
| "truthy (JArr xs) = (xs \<noteq> [])"
| "truthy (JObj kvs) = (kvs \<noteq> [])"

text \<open>\<open>d.get(k, default)\<close>: only a dict has the method.\<close>

fun dict_get :: "json \<Rightarrow> string \<Rightarrow> json \<Rightarrow> exn + json" where
  "dict_get (JObj kvs) k dflt = Inr (case map_of kvs k of None \<Rightarrow> dflt | Some v \<Rightarrow> v)"
| "dict_get _ k dflt = Inl AttributeError"

text \<open>\<open>max(a, b)\<close> of two numbers: \<open>b\<close> when \<open>b > a\<close>, else \<open>a\<close>.\<close>

definition py_max :: "pyfloat \<Rightarrow> pyfloat \<Rightarrow> pyfloat" where
  "py_max a b = (if pf_gt b a then b else a)"

subsection \<open>\<open>health_check\<close>\<close>

text \<open>Line 119.\<close>

definition test_mae_of :: "json \<Rightarrow> exn + json" where
  "test_mae_of results =
     (if truthy results then
        (case dict_get results ''metrics'' (JObj []) of
           Inl e \<Rightarrow> Inl e
         | Inr metrics \<Rightarrow>
             (case dict_get metrics ''test'' (JObj []) of
                Inl e \<Rightarrow> Inl e
              | Inr test \<Rightarrow> dict_get test ''mae'' JNull))
      else Inr JNull)"

text \<open>Lines 118-126, the body of the \<open>try\<close>.\<close>

definition health_check_try ::
  "'m lib \<Rightarrow> 'm store \<Rightarrow> 'm proc \<Rightarrow> (exn + HealthResponse) \<times> 'm proc" where
  "health_check_try lib st p =
     (case load_model st p of
        (Inl e, p1) \<Rightarrow> (Inl e, p1)
      | (Inr (model, results), p1) \<Rightarrow>
          (case test_mae_of results of
             Inl e \<Rightarrow> (Inl e, p1)
           | Inr v \<Rightarrow>
               (case validate_test_mae lib v of
                  Inl e \<Rightarrow> (Inl e, p1)
                | Inr mae \<Rightarrow>
                    (Inr \<lparr>status = ''healthy'',
                          model_loaded = (model \<noteq> None),
                          n_features = length FEATURE_COLUMNS,
                          test_mae = mae\<rparr>, p1))))"

definition health_check ::
  "'m lib \<Rightarrow> 'm store \<Rightarrow> 'm proc \<Rightarrow> (exn + HealthResponse) \<times> 'm proc" where
  "health_check lib st p =
     (case health_check_try lib st p of
        (Inl e, p1) \<Rightarrow> (Inl (HTTPException 500 ''Model not available''), p1)
      | (Inr resp, p1) \<Rightarrow> (Inr resp, p1))"

subsection \<open>\<open>predict\<close>\<close>

text \<open>Lines 143-161: the row of the feature array.\<close>

definition feature_row :: "PredictionRequest \<Rightarrow> pynum list" where
  "feature_row request =
     [PyFloat (hour_sin request),
      PyFloat (hour_cos request),
      PyFloat (dow_sin request),
      PyFloat (dow_cos request),
      PyFloat (month_sin request),
      PyFloat (month_cos request),
      PyFloat (lag_1h request),
      PyFloat (lag_24h request),
      PyFloat (lag_168h request),
      PyFloat (diff_24h request),
      PyFloat (rolling_7d_mean request),
      PyFloat (rolling_7d_std request),
      PyFloat (rolling_14d_mean request),
      PyFloat (rolling_7d_cv request),
      PyFloat (zone_mean_demand request),
      PyFloat (zone_rank request),
      PyInt (zone_is_top50 request)]"

text \<open>\<open>model.predict(features)\<close>, where \<open>model\<close> may be \<open>None\<close>.\<close>

definition call_predict :: "'m lib \<Rightarrow> 'm option \<Rightarrow> pynum list list \<Rightarrow> exn + pyfloat list" where
  "call_predict lib model features =
     (case model of
        None \<Rightarrow> Inl AttributeError
      | Some m \<Rightarrow> model_predict lib m features)"

text \<open>Lines 164-181: from the outcome of \<open>model.predict(features)\<close> to the response.\<close>

definition prediction_response :: "exn + pyfloat list \<Rightarrow> exn + PredictionResponse" where
  "prediction_response out =
     (case out of
        Inl e \<Rightarrow> Inl e
      | Inr [] \<Rightarrow> Inl IndexError
      | Inr (prediction # _) \<Rightarrow>
          (let confidence =
                 (if pf_lt prediction (Finite 5) then ''low''
                  else if pf_lt prediction (Finite 20) then ''medium''
                  else ''high'')
           in Inr \<lparr>predicted_pickups = py_max (Finite 0) prediction,
                   confidence = confidence,
                   model_version = ''xgboost-v1.0-test-mae-0.84''\<rparr>))"

text \<open>Lines 140-181, the body of the \<open>try\<close>.\<close>

definition predict_try ::
  "'m lib \<Rightarrow> 'm store \<Rightarrow> 'm proc \<Rightarrow> PredictionRequest \<Rightarrow> (exn + PredictionResponse) \<times> 'm proc" where
  "predict_try lib st p request =
     (case load_model st p of
        (Inl e, p1) \<Rightarrow> (Inl e, p1)
      | (Inr (model, results), p1) \<Rightarrow>
          (let features = [feature_row request]
           in (prediction_response (call_predict lib model features), p1)))"

definition predict ::
  "'m lib \<Rightarrow> 'm store \<Rightarrow> 'm proc \<Rightarrow> PredictionRequest \<Rightarrow> (exn + PredictionResponse) \<times> 'm proc" where
  "predict lib st p request =
     (case predict_try lib st p request of
        (Inl e, p1) \<Rightarrow> (Inl (HTTPException 500 (''Prediction error: '' @ str_exn lib e)), p1)
      | (Inr resp, p1) \<Rightarrow> (Inr resp, p1))"

subsection \<open>\<open>model_info\<close>\<close>




section \<open>The trainer (\<open>train.py\<close>)\<close>

type_synonym matrix = "pynum list list"

type_synonym target = "pynum list"

type_synonym split_metrics = "(string \<times> pyfloat) list"

type_synonym metrics = "(string \<times> split_metrics) list"

text \<open>
  The calls the trainer makes outside \<open>train.py\<close> are parameters of the model, each
  giving its value or the exception it raises:
  \<^item> \<open>load_features\<close> and \<open>prepare_features\<close> are the functions of the module
    \<open>urban_mobility_forecaster.features\<close>; \<open>'d\<close> is the type of a data frame. They
    produce the dataset splits and are taken not to write to the Artifact Store;
  \<^item> \<open>xgb_fit params X_train y_train X_val y_val\<close> is \<open>xgb.XGBRegressor(**params)\<close>
    followed by \<open>fit\<close> with the evaluation set of lines 36-40;
  \<^item> \<open>xgb_predict model X\<close> is \<open>model.predict(X)\<close>;
  \<^item> \<open>feature_importances model\<close> is \<open>model.feature_importances_\<close>;
  \<^item> \<open>mean_absolute_error\<close>, \<open>mean_squared_error\<close> and \<open>r2_score\<close> are the
    functions of \<open>sklearn.metrics\<close>, applied to the targets and the predictions;
  \<^item> \<open>pow_half x\<close> is \<open>float(x ** 0.5)\<close> for the mean squared error \<open>x\<close>: the
    float that the power operation returns, which is rounded, or the exception raised
    (for a negative Python float the power is complex and \<open>float\<close> raises).
\<close>

record ('m, 'd) toolkit =
  load_features :: "exn + 'd \<times> 'd \<times> 'd"
  prepare_features ::
    "'d \<Rightarrow> 'd \<Rightarrow> 'd \<Rightarrow> exn + matrix \<times> target \<times> matrix \<times> target \<times> matrix \<times> target"
  xgb_fit ::
    "(string \<times> json) list \<Rightarrow> matrix \<Rightarrow> target \<Rightarrow> matrix \<Rightarrow> target \<Rightarrow> exn + 'm"
  xgb_predict :: "'m \<Rightarrow> matrix \<Rightarrow> exn + pyfloat list"
  feature_importances :: "'m \<Rightarrow> exn + pyfloat list"
  mean_absolute_error :: "target \<Rightarrow> pyfloat list \<Rightarrow> exn + pyfloat"
  mean_squared_error :: "target \<Rightarrow> pyfloat list \<Rightarrow> exn + pyfloat"
  r2_score :: "target \<Rightarrow> pyfloat list \<Rightarrow> exn + pyfloat"
  pow_half :: "pyfloat \<Rightarrow> exn + pyfloat"

subsection \<open>\<open>train_model\<close>\<close>

definition train_model ::
  "('m, 'd) toolkit \<Rightarrow> matrix \<Rightarrow> target \<Rightarrow> matrix \<Rightarrow> target \<Rightarrow> (string \<times> json) list
     \<Rightarrow> exn + 'm" where
  "train_model T X_train y_train X_val y_val params = xgb_fit T params X_train y_train X_val y_val"

subsection \<open>\<open>evaluate_model\<close>\<close>

text \<open>The three entries of one split (lines 56-58, 61-63, 66-68), in evaluation order.\<close>

definition split_entry ::
  "('m, 'd) toolkit \<Rightarrow> target \<Rightarrow> pyfloat list \<Rightarrow> exn + split_metrics" where
  "split_entry T y y_pred =
     (case mean_absolute_error T y y_pred of
        Inl e \<Rightarrow> Inl e
      | Inr mae \<Rightarrow>
          (case mean_squared_error T y y_pred of
             Inl e \<Rightarrow> Inl e
           | Inr mse \<Rightarrow>
               (case pow_half T mse of
                  Inl e \<Rightarrow> Inl e
                | Inr rmse \<Rightarrow>
                    (case r2_score T y y_pred of
                       Inl e \<Rightarrow> Inl e
                     | Inr r2 \<Rightarrow> Inr [(''mae'', mae), (''rmse'', rmse), (''r2'', r2)]))))"

text \<open>
  Lines 88-96: the frame of feature importances needs as many importances as feature
  names. Sorting and logging it has no effect on the result.
\<close>

definition importance_report :: "('m, 'd) toolkit \<Rightarrow> 'm \<Rightarrow> string list \<Rightarrow> exn + unit" where
  "importance_report T model feature_cols =
     (case feature_importances T model of
        Inl e \<Rightarrow> Inl e
      | Inr imp \<Rightarrow> (if length imp = length feature_cols then Inr () else Inl ValueError))"

definition evaluate_model ::
  "('m, 'd) toolkit \<Rightarrow> 'm \<Rightarrow> matrix \<Rightarrow> target \<Rightarrow> matrix \<Rightarrow> target \<Rightarrow> matrix \<Rightarrow> target
     \<Rightarrow> string list \<Rightarrow> exn + metrics" where
  "evaluate_model T model X_train y_train X_val y_val X_test y_test feature_cols =
     (case xgb_predict T model X_train of
        Inl e \<Rightarrow> Inl e
      | Inr y_train_pred \<Rightarrow>
     (case xgb_predict T model X_val of
        Inl e \<Rightarrow> Inl e
      | Inr y_val_pred \<Rightarrow>
     (case xgb_predict T model X_test of
        Inl e \<Rightarrow> Inl e
      | Inr y_test_pred \<Rightarrow>
     (case split_entry T y_train y_train_pred of
        Inl e \<Rightarrow> Inl e
      | Inr train \<Rightarrow>
     (case split_entry T y_val y_val_pred of
        Inl e \<Rightarrow> Inl e
      | Inr val \<Rightarrow>
     (case split_entry T y_test y_test_pred of
        Inl e \<Rightarrow> Inl e
      | Inr test \<Rightarrow>
          (let results = [(''train'', train), (''val'', val), (''test'', test)]
           in case importance_report T model feature_cols of
                Inl e \<Rightarrow> Inl e
              | Inr _ \<Rightarrow> Inr results)))))))"

subsection \<open>\<open>save_model\<close>\<close>

text \<open>
  The file system of the trainer: the store and the accesses made to it, oldest first.
  The file system is taken to have room for every write, and the model to be picklable.
\<close>

type_synonym 'm fs = "'m store \<times> io list"

text \<open>\<open>d.mkdir(exist_ok=True)\<close>.\<close>

definition mkdir_exist_ok :: "path \<Rightarrow> 'm fs \<Rightarrow> (exn + unit) \<times> 'm fs" where
  "mkdir_exist_ok d fs =
     (case fs of (st, evs) \<Rightarrow>
        (case st d of
           None \<Rightarrow> (Inr (), (st(d \<mapsto> Directory), evs @ [Mkdir d]))
         | Some Directory \<Rightarrow> (Inr (), (st, evs @ [Mkdir d]))
         | Some _ \<Rightarrow> (Inl (FileExistsError d), (st, evs @ [Mkdir d]))))"

text \<open>
  \<open>with open(f, 'w') as h: h.write(c)\<close> (or a dump of \<open>c\<close>), for a file of the
  directory \<open>MODELS_DIR\<close>.
\<close>

definition write_file :: "path \<Rightarrow> 'm content \<Rightarrow> 'm fs \<Rightarrow> (exn + unit) \<times> 'm fs" where
  "write_file f c fs =
     (case fs of (st, evs) \<Rightarrow>
        (if f = MODELS_DIR \<or> st f = Some Directory then
           (Inl (IsADirectoryError f), (st, evs @ [Write f]))
         else if st MODELS_DIR \<noteq> Some Directory then
           (Inl (FileNotFoundError f), (st, evs @ [Write f]))
         else (Inr (), (st(f \<mapsto> c), evs @ [Write f]))))"

text \<open>\<open>sep.join(xs)\<close>.\<close>

fun str_join :: "string \<Rightarrow> string list \<Rightarrow> string" where
  "str_join sep [] = []"
| "str_join sep [x] = x"
| "str_join sep (x # y # ys) = x @ sep @ str_join sep (y # ys)"

text \<open>The evaluation results as the JSON value that \<open>json.dump\<close> writes for them.\<close>

definition json_of_metrics :: "metrics \<Rightarrow> json" where
  "json_of_metrics results =
     JObj (map (\<lambda>(split, ms). (split, JObj (map (\<lambda>(k, v). (k, JNum v)) ms))) results)"

text \<open>Lines 116-122.\<close>

definition results_with_meta :: "string list \<Rightarrow> metrics \<Rightarrow> json" where
  "results_with_meta feature_cols results =
     JObj [(''model_type'', JStr ''XGBoost''),
           (''n_features'', JInt (int (length feature_cols))),
           (''features'', JArr (map JStr feature_cols)),
           (''hyperparameters'', JObj XGBOOST_PARAMS),
           (''metrics'', json_of_metrics results)]"

definition save_model ::
  "'m \<Rightarrow> string list \<Rightarrow> metrics \<Rightarrow> path \<Rightarrow> path \<Rightarrow> path \<Rightarrow> 'm fs \<Rightarrow> (exn + unit) \<times> 'm fs" where
  "save_model model feature_cols results model_path feature_path results_path fs =
     (case mkdir_exist_ok MODELS_DIR fs of
        (Inl e, fs1) \<Rightarrow> (Inl e, fs1)
      | (Inr _, fs1) \<Rightarrow>
     (case write_file model_path (Pickled (Some model)) fs1 of
        (Inl e, fs2) \<Rightarrow> (Inl e, fs2)
      | (Inr _, fs2) \<Rightarrow>
     (case write_file feature_path (Text (str_join [CHR 0x0A] feature_cols)) fs2 of
        (Inl e, fs3) \<Rightarrow> (Inl e, fs3)
      | (Inr _, fs3) \<Rightarrow>
          write_file results_path (JsonDoc (results_with_meta feature_cols results)) fs3)))"

subsection \<open>\<open>main\<close>\<close>

definition main :: "('m, 'd) toolkit \<Rightarrow> 'm fs \<Rightarrow> (exn + unit) \<times> 'm fs" where
  "main T fs =
     (case load_features T of
        Inl e \<Rightarrow> (Inl e, fs)
      | Inr (train_df, val_df, test_df) \<Rightarrow>
     (case prepare_features T train_df val_df test_df of
        Inl e \<Rightarrow> (Inl e, fs)
      | Inr (X_train, y_train, X_val, y_val, X_test, y_test) \<Rightarrow>
          (let feature_cols = FEATURE_COLUMNS
           in case train_model T X_train y_train X_val y_val XGBOOST_PARAMS of
                Inl e \<Rightarrow> (Inl e, fs)
              | Inr model \<Rightarrow>
                  (case evaluate_model T model X_train y_train X_val y_val X_test y_test
                          feature_cols of
                     Inl e \<Rightarrow> (Inl e, fs)
                   | Inr results \<Rightarrow>
                       save_model model feature_cols results
                         MODEL_FILE FEATURE_LIST_FILE RESULTS_FILE fs))))"


section \<open>Concrete instances\<close>

text \<open>The decimal digits of a natural number.\<close>

fun nat_str :: "nat \<Rightarrow> string" where
  "nat_str n =
     (if n < 10 then [''0123456789'' ! n]
      else nat_str (n div 10) @ [''0123456789'' ! (n mod 10)])"

text \<open>
  A model that predicts its own value for every row, with \<open>str\<close> of an
  \<open>HTTPException\<close> giving the status code, a colon and the detail. In \<open>const_lib\<close>
  the validation of \<open>test_mae\<close> accepts \<open>None\<close> and floats; in \<open>strict_lib\<close> it
  accepts floats and rejects \<open>None\<close>, as a response class does that reads the
  annotation \<open>float\<close> as excluding \<open>None\<close>. Then stores holding the model only, and
  the model with a results file; the request of \<open>test_predict_endpoint\<close>.
\<close>

definition const_lib :: "pyfloat lib" where
  "const_lib =
     \<lparr>model_predict = (\<lambda>m rows. Inr (map (\<lambda>_. m) rows)),
      validate_test_mae =
        (\<lambda>v. case v of
                JNull \<Rightarrow> Inr None
              | JNum x \<Rightarrow> Inr (Some x)
              | _ \<Rightarrow> Inl (LibraryError ''ValidationError'')),
      str_exn =
        (\<lambda>e. case e of
                HTTPException c d \<Rightarrow> nat_str c @ '': '' @ d
              | _ \<Rightarrow> ''error'')\<rparr>"


definition example_metrics :: metrics where
  "example_metrics =
     [(''train'', [(''mae'', Finite (1 / 2)), (''rmse'', Finite 1), (''r2'', Finite (9 / 10))]),
      (''val'', [(''mae'', Finite (3 / 4)), (''rmse'', Finite 2), (''r2'', Finite (8 / 10))]),
      (''test'', [(''mae'', Finite (84 / 100)), (''rmse'', Finite 3), (''r2'', Finite (7 / 10))])]"

definition store_model_only :: "pyfloat \<Rightarrow> pyfloat store" where
  "store_model_only m = Map.empty(MODELS_DIR \<mapsto> Directory, MODEL_FILE \<mapsto> Pickled (Some m))"

definition store_with_results :: "pyfloat \<Rightarrow> json \<Rightarrow> pyfloat store" where
  "store_with_results m v = (store_model_only m)(RESULTS_FILE \<mapsto> JsonDoc v)"

definition loaded_proc :: "pyfloat \<Rightarrow> pyfloat proc" where
  "loaded_proc m =
     \<lparr>cached_model = Some m, cached_results = JNull,
      io_log = [Exists MODEL_FILE, Read MODEL_FILE, Exists RESULTS_FILE]\<rparr>"

definition example_request :: PredictionRequest where
  "example_request =
     \<lparr>hour_sin = Finite (9511 / 10000),
      hour_cos = Finite (309 / 1000),
      dow_sin = Finite 0,
      dow_cos = Finite 1,
      month_sin = Finite (2588 / 10000),
      month_cos = Finite (9659 / 10000),
      lag_1h = Finite (455 / 10),
      lag_24h = Finite (382 / 10),
      lag_168h = Finite (401 / 10),
      diff_24h = Finite (73 / 10),
      rolling_7d_mean = Finite 42,
      rolling_7d_std = Finite (85 / 10),
      rolling_14d_mean = Finite (415 / 10),
      rolling_7d_cv = Finite (2 / 10),
      zone_mean_demand = Finite 35,
      zone_rank = Finite 10,
      zone_is_top50 = 1\<rparr>"


text \<open>
  Results metadata as \<open>save_model\<close> writes it, metadata recording another feature
  count, metadata whose \<open>metrics\<close> entry is \<open>null\<close>, and the states of the process
  after its loads.
\<close>

definition drifted_results :: json where
  "drifted_results =
     JObj [(''model_type'', JStr ''XGBoost''),
           (''n_features'', JInt 5),
           (''metrics'', JObj [(''test'', JObj [(''mae'', JNum (Finite (84 / 100)))])])]"


definition example_results :: json where
  "example_results = results_with_meta FEATURE_COLUMNS example_metrics"

definition reloaded_proc :: "pyfloat \<Rightarrow> json \<Rightarrow> pyfloat proc" where
  "reloaded_proc m v =
     \<lparr>cached_model = Some m, cached_results = v,
      io_log = [Exists MODEL_FILE, Read MODEL_FILE, Exists RESULTS_FILE,
                Exists RESULTS_FILE, Read RESULTS_FILE]\<rparr>"

definition full_proc :: "pyfloat \<Rightarrow> json \<Rightarrow> pyfloat proc" where
  "full_proc m v =
     \<lparr>cached_model = Some m, cached_results = v,
      io_log = [Exists MODEL_FILE, Read MODEL_FILE, Exists RESULTS_FILE, Read RESULTS_FILE]\<rparr>"


text \<open>
  A training environment whose model predicts the constant 3 and whose metrics are fixed
  numbers, the evaluation it yields, and the same environment with a failing fit.
\<close>

text \<open>
  \<open>float(x ** 0.5)\<close> as Python computes it at the two arguments used below:
  \<open>4.0 ** 0.5\<close> is \<open>2.0\<close>, and \<open>2.0 ** 0.5\<close> is the float
  \<open>6369051672525773 / 2 ** 52\<close>, printed \<open>1.4142135623730951\<close>. Other arguments
  are not tabulated.
\<close>

definition python_pow_half :: "pyfloat \<Rightarrow> exn + pyfloat" where
  "python_pow_half x =
     (if x = Finite 4 then Inr (Finite 2)
      else if x = Finite 2 then Inr (Finite (6369051672525773 / 4503599627370496))
      else Inl (LibraryError ''not tabulated''))"

definition example_toolkit :: "(pyfloat, unit) toolkit" where
  "example_toolkit =
     \<lparr>load_features = Inr ((), (), ()),
      prepare_features =
        (\<lambda>train_df val_df test_df.
           Inr ([[PyInt 1]], [PyInt 3], [[PyInt 2]], [PyInt 4], [[PyInt 3]], [PyInt 5])),
      xgb_fit = (\<lambda>params X_train y_train X_val y_val. Inr (Finite 3)),
      xgb_predict = (\<lambda>m X. Inr (map (\<lambda>_. m) X)),
      feature_importances = (\<lambda>m. Inr (replicate 17 (Finite (1 / 17)))),
      mean_absolute_error = (\<lambda>y pred. Inr (Finite 1)),
      mean_squared_error = (\<lambda>y pred. Inr (Finite 4)),
      r2_score = (\<lambda>y pred. Inr (Finite (1 / 2))),
      pow_half = python_pow_half\<rparr>"

definition example_evaluation :: metrics where
  "example_evaluation =
     [(''train'', [(''mae'', Finite 1), (''rmse'', Finite 2), (''r2'', Finite (1 / 2))]),
      (''val'', [(''mae'', Finite 1), (''rmse'', Finite 2), (''r2'', Finite (1 / 2))]),
      (''test'', [(''mae'', Finite 1), (''rmse'', Finite 2), (''r2'', Finite (1 / 2))])]"

text \<open>
  Splits whose targets are 5 and 3, with the model that predicts 3 for every row: the
  mean absolute error is 1, the mean squared error is 2 and the coefficient of
  determination is -1.
\<close>

definition sqrt2_toolkit :: "(pyfloat, unit) toolkit" where
  "sqrt2_toolkit =
     example_toolkit
       \<lparr>prepare_features :=
          (\<lambda>train_df val_df test_df.
             Inr ([[PyInt 1], [PyInt 2]], [PyInt 5, PyInt 3],
                  [[PyInt 1], [PyInt 2]], [PyInt 5, PyInt 3],
                  [[PyInt 1], [PyInt 2]], [PyInt 5, PyInt 3])),
        mean_squared_error := (\<lambda>y pred. Inr (Finite 2)),
        r2_score := (\<lambda>y pred. Inr (Finite (- 1)))\<rparr>"

definition sqrt2_evaluation :: metrics where
  "sqrt2_evaluation =
     [(''train'', [(''mae'', Finite 1),
                   (''rmse'', Finite (6369051672525773 / 4503599627370496)),
                   (''r2'', Finite (- 1))]),
      (''val'', [(''mae'', Finite 1),
                 (''rmse'', Finite (6369051672525773 / 4503599627370496)),
                 (''r2'', Finite (- 1))]),
      (''test'', [(''mae'', Finite 1),
                  (''rmse'', Finite (6369051672525773 / 4503599627370496)),
                  (''r2'', Finite (- 1))])]"

definition failing_toolkit :: "(pyfloat, unit) toolkit" where
  "failing_toolkit =
     example_toolkit\<lparr>xgb_fit :=
       (\<lambda>params X_train y_train X_val y_val. Inl (LibraryError ''XGBoostError''))\<rparr>"


section \<open>Properties of the server\<close>

subsection \<open>Shared facts\<close>

lemma length_FEATURE_COLUMNS: "length FEATURE_COLUMNS = 17"
  by (simp add: FEATURE_COLUMNS_def)

lemma feature_row_fields:
  "map (request_field request) FEATURE_COLUMNS = map Some (feature_row request)"
  by (simp add: FEATURE_COLUMNS_def request_field_def feature_row_def)

lemma load_model_only:
  "load_model (store_model_only m) initial_proc = (Inr (Some m, JNull), loaded_proc m)"
  by (simp add: load_model_def load_model_file_def load_results_file_def store_model_only_def
      initial_proc_def loaded_proc_def log_io_def)

lemma predict_loaded:
  assumes "load_model st p = (Inr (Some m, r), p1)"
  shows "predict lib st p request =
           (case prediction_response (model_predict lib m [feature_row request]) of
              Inl e \<Rightarrow> Inl (HTTPException 500 (''Prediction error: '' @ str_exn lib e))
            | Inr resp \<Rightarrow> Inr resp, p1)"
  using assms by (simp add: predict_def predict_try_def call_predict_def split: sum.splits)

lemma predict_success:
  assumes "load_model st p = (Inr (Some m, r), p1)"
    and "model_predict lib m [feature_row request] = Inr (x # xs)"
  shows "predict lib st p request =
           (Inr \<lparr>predicted_pickups = py_max (Finite 0) x,
                 confidence = (if pf_lt x (Finite 5) then ''low''
                               else if pf_lt x (Finite 20) then ''medium'' else ''high''),
                 model_version = ''xgboost-v1.0-test-mae-0.84''\<rparr>, p1)"
  using assms by (simp add: predict_loaded prediction_response_def)

lemma py_max_zero_cases:
  "pf_ge (py_max (Finite 0) x) (Finite 0)"
  "pf_ge x (Finite 0) \<Longrightarrow> py_max (Finite 0) x = x"
  "pf_lt x (Finite 0) \<Longrightarrow> py_max (Finite 0) x = Finite 0"
  by (cases x; auto simp: py_max_def pf_gt_def pf_ge_def)+

subsection \<open>The feature vector\<close>

text \<open>
  C1. When the model is loaded, \<open>predict\<close> passes to the model a single row of 17
  entries, and entry \<open>i\<close> of that row is the field of the request named by element
  \<open>i\<close> of \<open>FEATURE_COLUMNS\<close>: the row is the list of the fields looked up by the
  names of the schema, in the order of the schema. The model's inference stands for any
  function, so the row shown is the one it receives.
\<close>

theorem predict_feature_vector_order:
  assumes "load_model st p = (Inr (Some m, r), p1)"
  shows "length FEATURE_COLUMNS = 17
       \<and> map (request_field request) FEATURE_COLUMNS = map Some (feature_row request)
       \<and> (\<forall>i<17. request_field request (FEATURE_COLUMNS ! i) = Some (feature_row request ! i))
       \<and> predict lib st p request =
           (case prediction_response (model_predict lib m [feature_row request]) of
              Inl e \<Rightarrow> Inl (HTTPException 500 (''Prediction error: '' @ str_exn lib e))
            | Inr resp \<Rightarrow> Inr resp, p1)"
proof -
  have len: "length (feature_row request) = 17"
    by (simp add: feature_row_def)
  have pos: "request_field request (FEATURE_COLUMNS ! i) = Some (feature_row request ! i)"
    if "i < 17" for i
  proof -
    have "map (request_field request) FEATURE_COLUMNS ! i = map Some (feature_row request) ! i"
      by (simp only: feature_row_fields)
    with that len show ?thesis
      by (simp add: length_FEATURE_COLUMNS)
  qed
  from pos predict_loaded [OF assms] show ?thesis
    by (simp add: length_FEATURE_COLUMNS feature_row_fields)
qed

theorem predict_feature_vector_order_witness:
  "load_model (store_model_only (Finite 12)) initial_proc
     = (Inr (Some (Finite 12), JNull), loaded_proc (Finite 12))
   \<and> request_field example_request (FEATURE_COLUMNS ! 16) = Some (PyInt 1)
   \<and> feature_row example_request ! 16 = PyInt 1
   \<and> predict const_lib (store_model_only (Finite 12)) initial_proc example_request =
       (Inr \<lparr>predicted_pickups = Finite 12, confidence = ''medium'',
             model_version = ''xgboost-v1.0-test-mae-0.84''\<rparr>, loaded_proc (Finite 12))"
proof -
  have h: "load_model (store_model_only (Finite 12)) initial_proc
             = (Inr (Some (Finite 12), JNull), loaded_proc (Finite 12))"
    by (rule load_model_only)
  have r: "feature_row example_request ! 16 = PyInt 1"
    by (simp add: feature_row_def example_request_def)
  from predict_feature_vector_order [OF h, of example_request const_lib] h r show ?thesis
    by (simp add: const_lib_def prediction_response_def py_max_def pf_gt_def)
qed

subsection \<open>Clamping and confidence\<close>

text \<open>
  C2. When the model is loaded and its inference on the row of the request returns the
  raw prediction \<open>x\<close>, \<open>predict\<close> succeeds and \<open>predicted_pickups\<close> is
  \<open>max(0, x)\<close>: it is never below zero, it is \<open>x\<close> when \<open>x >= 0\<close>, and it is 0
  when \<open>x < 0\<close>.
\<close>

theorem predicted_pickups_clamped:
  assumes "load_model st p = (Inr (Some m, r), p1)"
    and "model_predict lib m [feature_row request] = Inr (x # xs)"
  shows "\<exists>resp. predict lib st p request = (Inr resp, p1)
           \<and> predicted_pickups resp = py_max (Finite 0) x
           \<and> pf_ge (predicted_pickups resp) (Finite 0)
           \<and> (pf_ge x (Finite 0) \<longrightarrow> predicted_pickups resp = x)
           \<and> (pf_lt x (Finite 0) \<longrightarrow> predicted_pickups resp = Finite 0)"
  using predict_success [OF assms] py_max_zero_cases [of x] by simp

theorem predicted_pickups_clamped_witness:
  "load_model (store_model_only (Finite (- 3))) initial_proc
     = (Inr (Some (Finite (- 3)), JNull), loaded_proc (Finite (- 3)))
   \<and> model_predict const_lib (Finite (- 3)) [feature_row example_request] = Inr [Finite (- 3)]
   \<and> pf_lt (Finite (- 3)) (Finite 0)
   \<and> (\<exists>resp. predict const_lib (store_model_only (Finite (- 3))) initial_proc example_request
                 = (Inr resp, loaded_proc (Finite (- 3)))
           \<and> predicted_pickups resp = Finite 0)"
proof -
  have h1: "load_model (store_model_only (Finite (- 3))) initial_proc
              = (Inr (Some (Finite (- 3)), JNull), loaded_proc (Finite (- 3)))"
    by (rule load_model_only)
  have h2: "model_predict const_lib (Finite (- 3)) [feature_row example_request]
              = Inr [Finite (- 3)]"
    by (simp add: const_lib_def)
  have h3: "pf_lt (Finite (- 3)) (Finite 0)"
    by simp
  from predicted_pickups_clamped [OF h1 h2] h3 obtain resp where
    "predict const_lib (store_model_only (Finite (- 3))) initial_proc example_request
       = (Inr resp, loaded_proc (Finite (- 3)))" "predicted_pickups resp = Finite 0"
    by blast
  with h1 h2 h3 show ?thesis by blast
qed

text \<open>
  C3. When the model is loaded and its inference returns the raw prediction \<open>x\<close>, the
  confidence of the response is decided by \<open>x\<close> itself, before clamping: \<open>low\<close>
  for \<open>x < 5\<close>, \<open>medium\<close> for \<open>5 <= x < 20\<close>, \<open>high\<close> for \<open>x >= 20\<close>. So 5
  gives \<open>medium\<close>, 20 gives \<open>high\<close>, and a negative \<open>x\<close> gives \<open>low\<close> (with a
  predicted value clamped to 0).
\<close>

theorem confidence_from_raw_prediction:
  assumes "load_model st p = (Inr (Some m, r), p1)"
    and "model_predict lib m [feature_row request] = Inr (x # xs)"
  shows "\<exists>resp. predict lib st p request = (Inr resp, p1)
           \<and> (pf_lt x (Finite 5) \<longrightarrow> confidence resp = ''low'')
           \<and> (pf_ge x (Finite 5) \<and> pf_lt x (Finite 20) \<longrightarrow> confidence resp = ''medium'')
           \<and> (pf_ge x (Finite 20) \<longrightarrow> confidence resp = ''high'')
           \<and> (x = Finite 5 \<longrightarrow> confidence resp = ''medium'')
           \<and> (x = Finite 20 \<longrightarrow> confidence resp = ''high'')
           \<and> (pf_lt x (Finite 0) \<longrightarrow>
                confidence resp = ''low'' \<and> predicted_pickups resp = Finite 0)"
proof -
  have "pf_ge x (Finite 5) \<Longrightarrow> \<not> pf_lt x (Finite 5)"
    by (cases x) (auto simp: pf_ge_def)
  moreover have "pf_ge x (Finite 20) \<Longrightarrow> \<not> pf_lt x (Finite 20) \<and> \<not> pf_lt x (Finite 5)"
    by (cases x) (auto simp: pf_ge_def)
  moreover have "pf_lt x (Finite 0) \<Longrightarrow> pf_lt x (Finite 5)"
    by (cases x) auto
  ultimately show ?thesis
    using predict_success [OF assms] py_max_zero_cases(3) [of x] by auto
qed

theorem confidence_from_raw_prediction_witness:
  "load_model (store_model_only (Finite 5)) initial_proc
     = (Inr (Some (Finite 5), JNull), loaded_proc (Finite 5))
   \<and> model_predict const_lib (Finite 5) [feature_row example_request] = Inr [Finite 5]
   \<and> pf_ge (Finite 5) (Finite 5) \<and> pf_lt (Finite 5) (Finite 20)
   \<and> (\<exists>resp. predict const_lib (store_model_only (Finite 5)) initial_proc example_request
                 = (Inr resp, loaded_proc (Finite 5))
           \<and> confidence resp = ''medium'')"
proof -
  have h1: "load_model (store_model_only (Finite 5)) initial_proc
              = (Inr (Some (Finite 5), JNull), loaded_proc (Finite 5))"
    by (rule load_model_only)
  have h2: "model_predict const_lib (Finite 5) [feature_row example_request] = Inr [Finite 5]"
    by (simp add: const_lib_def)
  have h3: "pf_ge (Finite 5) (Finite 5) \<and> pf_lt (Finite 5) (Finite 20)"
    by (simp add: pf_ge_def)
  from confidence_from_raw_prediction [OF h1 h2] h3 obtain resp where
    "predict const_lib (store_model_only (Finite 5)) initial_proc example_request
       = (Inr resp, loaded_proc (Finite 5))" "confidence resp = ''medium''"
    by blast
  with h1 h2 h3 show ?thesis by blast
qed


section \<open>Properties of the Model Cache\<close>

subsection \<open>Shared facts\<close>

lemma load_model_file_cached:
  "cached_model p = Some m \<Longrightarrow> load_model_file st p = (Inr (), p)"
  by (simp add: load_model_file_def)

lemma load_results_file_cached:
  "cached_results p \<noteq> JNull \<Longrightarrow> load_results_file st p = (Inr (), p)"
  by (simp add: load_results_file_def)

lemma load_model_warm:
  "cached_model p = Some m \<Longrightarrow> cached_results p \<noteq> JNull \<Longrightarrow>
   load_model st p = (Inr (Some m, cached_results p), p)"
  by (simp add: load_model_def load_model_file_cached load_results_file_cached)

lemma load_results_file_effect:
  "load_results_file st p = (r, p1) \<Longrightarrow>
     cached_model p1 = cached_model p \<and>
     (\<exists>evs. io_log p1 = io_log p @ evs \<and> set evs \<subseteq> {Exists RESULTS_FILE, Read RESULTS_FILE})"
  by (auto simp: load_results_file_def log_io_def Let_def
           split: if_splits option.splits sum.splits)

lemma load_model_success_cache:
  "load_model st p = (Inr (mo, r), p1) \<Longrightarrow> cached_model p1 = mo \<and> cached_results p1 = r"
  by (auto simp: load_model_def split: prod.splits sum.splits)

lemma load_model_model_cached:
  assumes "cached_model p = Some m" and "load_model st p = (res, p1)"
  shows "cached_model p1 = Some m
       \<and> (\<exists>evs. io_log p1 = io_log p @ evs \<and> set evs \<subseteq> {Exists RESULTS_FILE, Read RESULTS_FILE})
       \<and> (\<forall>y. res = Inr y \<longrightarrow> fst y = Some m)"
proof -
  obtain r q where rq: "load_results_file st p = (r, q)"
    by (cases "load_results_file st p")
  from load_results_file_effect [OF rq] assms(1) have q: "cached_model q = Some m"
    "\<exists>evs. io_log q = io_log p @ evs \<and> set evs \<subseteq> {Exists RESULTS_FILE, Read RESULTS_FILE}"
    by simp_all
  from assms rq have "p1 = q" "\<forall>y. res = Inr y \<longrightarrow> fst y = cached_model q"
    by (auto simp: load_model_def load_model_file_cached split: sum.splits)
  with q show ?thesis by simp
qed

lemma load_calls_warm:
  "cached_model p = Some m \<Longrightarrow> cached_results p \<noteq> JNull \<Longrightarrow>
   load_calls sts p = (replicate (length sts) (Inr (Some m, cached_results p)), p)"
  by (induction sts) (simp_all add: load_model_warm)

lemma load_calls_model_cached:
  "cached_model p = Some m \<Longrightarrow> load_calls sts p = (rs, p1) \<Longrightarrow>
     cached_model p1 = Some m
   \<and> (\<exists>evs. io_log p1 = io_log p @ evs \<and> set evs \<subseteq> {Exists RESULTS_FILE, Read RESULTS_FILE})
   \<and> (\<forall>x \<in> set rs. \<forall>y. x = Inr y \<longrightarrow> fst y = Some m)"
proof (induction sts arbitrary: p rs p1)
  case Nil
  then show ?case by simp
next
  case (Cons st sts)
  obtain r q where rq: "load_model st p = (r, q)"
    by (cases "load_model st p")
  obtain rs' q' where rs': "load_calls sts q = (rs', q')"
    by (cases "load_calls sts q")
  from Cons.prems(2) rq rs' have eq: "rs = r # rs'" "p1 = q'"
    by simp_all
  from load_model_model_cached [OF Cons.prems(1) rq] obtain evs where
    q: "cached_model q = Some m" "io_log q = io_log p @ evs"
       "set evs \<subseteq> {Exists RESULTS_FILE, Read RESULTS_FILE}" "\<forall>y. r = Inr y \<longrightarrow> fst y = Some m"
    by blast
  from Cons.IH [OF q(1) rs'] obtain evs' where
    q': "cached_model q' = Some m" "io_log q' = io_log q @ evs'"
        "set evs' \<subseteq> {Exists RESULTS_FILE, Read RESULTS_FILE}"
        "\<forall>x \<in> set rs'. \<forall>y. x = Inr y \<longrightarrow> fst y = Some m"
    by blast
  have "io_log q' = io_log p @ (evs @ evs')"
    using q(2) q'(2) by simp
  moreover have "set (evs @ evs') \<subseteq> {Exists RESULTS_FILE, Read RESULTS_FILE}"
    using q(3) q'(3) by simp
  ultimately have "\<exists>es. io_log p1 = io_log p @ es \<and> set es \<subseteq> {Exists RESULTS_FILE, Read RESULTS_FILE}"
    using eq(2) by blast
  with q(4) q'(1,4) eq show ?case by simp
qed

lemma load_model_results_appear:
  assumes "cached_model p = Some m" and "cached_results p = JNull"
    and "st RESULTS_FILE = Some (JsonDoc v)"
  shows "load_model st p =
           (Inr (Some m, v),
            p\<lparr>io_log := io_log p @ [Exists RESULTS_FILE, Read RESULTS_FILE],
              cached_results := v\<rparr>)"
  using assms
  by (simp add: load_model_def load_model_file_cached load_results_file_def log_io_def)

lemma load_model_full:
  "load_model (store_with_results m v) initial_proc = (Inr (Some m, v), full_proc m v)"
  by (simp add: load_model_def load_model_file_def load_results_file_def store_model_only_def
      store_with_results_def initial_proc_def full_proc_def log_io_def)

lemma example_results_not_null: "example_results \<noteq> JNull"
  by (simp add: example_results_def results_with_meta_def)

lemma pickle_load_not_missing: "pickle_load c \<noteq> Inl (FileNotFoundError q)"
  by (cases c) simp_all

lemma json_load_not_missing: "json_load c \<noteq> Inl (FileNotFoundError q)"
  by (cases c) simp_all

subsection \<open>Loading at most once\<close>

text \<open>
  C4, as stated, fails. A first call on a store that holds the model and no results
  file succeeds with \<open>(model, None)\<close>; when the results file is there at the second
  call, that call reads it and returns another pair. And with a results file that holds
  \<open>null\<close>, the second call on the same store reads the results file again.
\<close>

theorem load_model_rereads_results_counterexample:
  "load_model (store_model_only (Finite 7)) initial_proc
     = (Inr (Some (Finite 7), JNull), loaded_proc (Finite 7))
   \<and> load_model (store_with_results (Finite 7) example_results) (loaded_proc (Finite 7))
     = (Inr (Some (Finite 7), example_results), reloaded_proc (Finite 7) example_results)
   \<and> (Some (Finite 7), example_results) \<noteq> (Some (Finite 7), JNull)
   \<and> io_log (reloaded_proc (Finite 7) example_results)
     = io_log (loaded_proc (Finite 7)) @ [Exists RESULTS_FILE, Read RESULTS_FILE]
   \<and> load_model (store_with_results (Finite 7) JNull) initial_proc
     = (Inr (Some (Finite 7), JNull), full_proc (Finite 7) JNull)
   \<and> io_log (snd (load_model (store_with_results (Finite 7) JNull) (full_proc (Finite 7) JNull)))
     = io_log (full_proc (Finite 7) JNull) @ [Exists RESULTS_FILE, Read RESULTS_FILE]"
proof -
  have "load_model (store_with_results (Finite 7) example_results) (loaded_proc (Finite 7))
     = (Inr (Some (Finite 7), example_results), reloaded_proc (Finite 7) example_results)"
    by (simp add: load_model_def load_model_file_def load_results_file_def store_model_only_def
      store_with_results_def loaded_proc_def reloaded_proc_def log_io_def)
  moreover have "io_log (snd (load_model (store_with_results (Finite 7) JNull) (full_proc (Finite 7) JNull)))
     = io_log (full_proc (Finite 7) JNull) @ [Exists RESULTS_FILE, Read RESULTS_FILE]"
    by (simp add: load_model_def load_model_file_def load_results_file_def store_model_only_def
      store_with_results_def full_proc_def log_io_def)
  ultimately show ?thesis
    using example_results_not_null
    by (simp add: load_model_only load_model_full loaded_proc_def reloaded_proc_def)
qed

text \<open>
  C4, amended. After a call that returned a model \<open>m\<close> and results \<open>r\<close>: over any
  later calls, whatever the store holds at each of them, the model stays cached, the
  model file is neither looked for nor read, and every call that succeeds returns
  \<open>m\<close>; when \<open>r\<close> is not \<open>None\<close>, every later call returns the pair
  \<open>(m, r)\<close> and leaves the process, its log of storage accesses included, as it was;
  when \<open>r\<close> is \<open>None\<close> and the results file holds a document, the next call looks
  for the file, reads it and returns the model with the document.
\<close>

theorem load_model_at_most_once_per_resource:
  assumes "load_model st0 p0 = (Inr (Some m, r), p1)"
  shows "(r \<noteq> JNull \<longrightarrow>
            load_calls sts p1 = (replicate (length sts) (Inr (Some m, r)), p1))
       \<and> cached_model (snd (load_calls sts p1)) = Some m
       \<and> (\<exists>evs. io_log (snd (load_calls sts p1)) = io_log p1 @ evs
                \<and> set evs \<subseteq> {Exists RESULTS_FILE, Read RESULTS_FILE})
       \<and> (\<forall>x \<in> set (fst (load_calls sts p1)). \<forall>y. x = Inr y \<longrightarrow> fst y = Some m)
       \<and> (r = JNull \<and> st RESULTS_FILE = Some (JsonDoc v) \<longrightarrow>
            load_model st p1 =
              (Inr (Some m, v),
               p1\<lparr>io_log := io_log p1 @ [Exists RESULTS_FILE, Read RESULTS_FILE],
                  cached_results := v\<rparr>))"
proof -
  from load_model_success_cache [OF assms] have c: "cached_model p1 = Some m" "cached_results p1 = r"
    by simp_all
  have a: "r \<noteq> JNull \<longrightarrow> load_calls sts p1 = (replicate (length sts) (Inr (Some m, r)), p1)"
    using load_calls_warm [of p1 m sts] c by simp
  have b: "cached_model (snd (load_calls sts p1)) = Some m
       \<and> (\<exists>evs. io_log (snd (load_calls sts p1)) = io_log p1 @ evs
                \<and> set evs \<subseteq> {Exists RESULTS_FILE, Read RESULTS_FILE})
       \<and> (\<forall>x \<in> set (fst (load_calls sts p1)). \<forall>y. x = Inr y \<longrightarrow> fst y = Some m)"
    using load_calls_model_cached [OF c(1), of sts "fst (load_calls sts p1)" "snd (load_calls sts p1)"]
    by simp
  have d: "r = JNull \<and> st RESULTS_FILE = Some (JsonDoc v) \<longrightarrow>
            load_model st p1 =
              (Inr (Some m, v),
               p1\<lparr>io_log := io_log p1 @ [Exists RESULTS_FILE, Read RESULTS_FILE],
                  cached_results := v\<rparr>)"
    using load_model_results_appear [of p1 m st v] c by simp
  from a b d show ?thesis by blast
qed


theorem load_model_at_most_once_per_resource_witness:
  "load_model (store_with_results (Finite 7) example_results) initial_proc
     = (Inr (Some (Finite 7), example_results), full_proc (Finite 7) example_results)
   \<and> example_results \<noteq> JNull
   \<and> load_calls [Map.empty, store_model_only (Finite 9)] (full_proc (Finite 7) example_results)
     = ([Inr (Some (Finite 7), example_results), Inr (Some (Finite 7), example_results)],
        full_proc (Finite 7) example_results)"
proof -
  let ?sts = "[Map.empty, store_model_only (Finite 9)]"
  have h: "load_model (store_with_results (Finite 7) example_results) initial_proc
     = (Inr (Some (Finite 7), example_results), full_proc (Finite 7) example_results)"
    by (rule load_model_full)
  note t = load_model_at_most_once_per_resource [OF h, of ?sts]
  have c: "load_calls ?sts (full_proc (Finite 7) example_results)
     = (replicate (length ?sts) (Inr (Some (Finite 7), example_results)),
        full_proc (Finite 7) example_results)"
    by (rule mp [OF conjunct1 [OF t] example_results_not_null])
  have r: "replicate (length ?sts) (Inr (Some (Finite 7), example_results) :: exn + pyfloat option \<times> json)
             = [Inr (Some (Finite 7), example_results), Inr (Some (Finite 7), example_results)]"
    by (simp add: numeral_2_eq_2)
  from h example_results_not_null c show ?thesis
    unfolding r by (intro conjI)
qed

subsection \<open>Reading the store\<close>

text \<open>
  C5. When no model is cached, \<open>load_model\<close> raises \<open>FileNotFoundError\<close> for the
  model file exactly when that file is absent, and then right after looking for it,
  before any read; no other failure of \<open>load_model\<close> is this error. When the model
  file holds a model and the results file is absent, the call succeeds with the model
  and \<open>None\<close> for the results.
\<close>

theorem load_model_missing_model_fails_fast:
  assumes "cached_model p = None"
  shows "(st MODEL_FILE = None \<longrightarrow>
            load_model st p = (Inl (FileNotFoundError MODEL_FILE), log_io (Exists MODEL_FILE) p))
       \<and> (fst (load_model st p) = Inl (FileNotFoundError MODEL_FILE) \<longleftrightarrow> st MODEL_FILE = None)
       \<and> (st MODEL_FILE = Some (Pickled (Some m)) \<and> st RESULTS_FILE = None
            \<and> cached_results p = JNull \<longrightarrow>
            load_model st p =
              (Inr (Some m, JNull),
               p\<lparr>io_log := io_log p @ [Exists MODEL_FILE, Read MODEL_FILE, Exists RESULTS_FILE],
                 cached_model := Some m\<rparr>))"
proof -
  have a: "st MODEL_FILE = None \<Longrightarrow>
            load_model st p = (Inl (FileNotFoundError MODEL_FILE), log_io (Exists MODEL_FILE) p)"
    using assms by (simp add: load_model_def load_model_file_def)
  have b: "fst (load_model st p) \<noteq> Inl (FileNotFoundError MODEL_FILE)"
    if "st MODEL_FILE = Some c" for c
    using that assms pickle_load_not_missing [of c] json_load_not_missing
    by (auto simp: load_model_def load_model_file_def load_results_file_def Let_def log_io_def
             split: option.splits sum.splits)
  have c: "st MODEL_FILE = Some (Pickled (Some m)) \<and> st RESULTS_FILE = None
            \<and> cached_results p = JNull \<Longrightarrow>
            load_model st p =
              (Inr (Some m, JNull),
               p\<lparr>io_log := io_log p @ [Exists MODEL_FILE, Read MODEL_FILE, Exists RESULTS_FILE],
                 cached_model := Some m\<rparr>)"
    using assms
    by (simp add: load_model_def load_model_file_def load_results_file_def log_io_def)
  from a b c show ?thesis
    by (cases "st MODEL_FILE") auto
qed

theorem load_model_missing_model_fails_fast_witness:
  "cached_model (initial_proc :: pyfloat proc) = None
   \<and> load_model Map.empty (initial_proc :: pyfloat proc)
       = (Inl (FileNotFoundError MODEL_FILE),
          \<lparr>cached_model = None, cached_results = JNull, io_log = [Exists MODEL_FILE]\<rparr>)
   \<and> load_model (store_model_only (Finite 7)) initial_proc
       = (Inr (Some (Finite 7), JNull), loaded_proc (Finite 7))"
proof -
  let ?p0 = "initial_proc :: pyfloat proc"
  have h: "cached_model ?p0 = None"
    by (simp add: initial_proc_def)
  have e: "(Map.empty :: pyfloat store) MODEL_FILE = None"
    by simp
  have s: "store_model_only (Finite 7) MODEL_FILE = Some (Pickled (Some (Finite 7)))
           \<and> store_model_only (Finite 7) RESULTS_FILE = None
           \<and> cached_results ?p0 = JNull"
    by (simp add: store_model_only_def initial_proc_def)
  note t1 = load_model_missing_model_fails_fast [OF h, of Map.empty]
  note t2 = load_model_missing_model_fails_fast [OF h, of "store_model_only (Finite 7)" "Finite 7"]
  have a: "load_model Map.empty ?p0
             = (Inl (FileNotFoundError MODEL_FILE), log_io (Exists MODEL_FILE) ?p0)"
    by (rule mp [OF conjunct1 [OF t1] e])
  have b: "load_model (store_model_only (Finite 7)) ?p0 =
             (Inr (Some (Finite 7), JNull),
              ?p0\<lparr>io_log := io_log ?p0 @ [Exists MODEL_FILE, Read MODEL_FILE, Exists RESULTS_FILE],
                  cached_model := Some (Finite 7)\<rparr>)"
    by (rule mp [OF conjunct2 [OF conjunct2 [OF t2]] s])
  have c: "log_io (Exists MODEL_FILE) ?p0
             = \<lparr>cached_model = None, cached_results = JNull, io_log = [Exists MODEL_FILE]\<rparr>"
    by (simp add: initial_proc_def log_io_def)
  have d: "?p0\<lparr>io_log := io_log ?p0 @ [Exists MODEL_FILE, Read MODEL_FILE, Exists RESULTS_FILE],
               cached_model := Some (Finite 7)\<rparr> = loaded_proc (Finite 7)"
    by (simp add: initial_proc_def loaded_proc_def)
  from h a b show ?thesis
    unfolding c d by (intro conjI)
qed



section \<open>Properties of the Health and Info services\<close>

subsection \<open>Shared facts\<close>

lemma health_check_loaded:
  assumes "load_model st p = (Inr (mo, r), p1)"
  shows "health_check lib st p =
          (case test_mae_of r of
             Inl e \<Rightarrow> (Inl (HTTPException 500 ''Model not available''), p1)
           | Inr v \<Rightarrow>
               (case validate_test_mae lib v of
                  Inl e \<Rightarrow> (Inl (HTTPException 500 ''Model not available''), p1)
                | Inr mae \<Rightarrow>
                    (Inr \<lparr>status = ''healthy'', model_loaded = (mo \<noteq> None),
                          n_features = length FEATURE_COLUMNS, test_mae = mae\<rparr>, p1)))"
  using assms by (simp add: health_check_def health_check_try_def split: sum.splits)

lemma health_check_features:
  assumes "health_check lib st p = (Inr resp, p1)"
  shows "n_features resp = length FEATURE_COLUMNS"
proof (cases "load_model st p")
  case (Pair res q)
  show ?thesis
  proof (cases res)
    case (Inl e)
    with Pair assms show ?thesis
      by (simp add: health_check_def health_check_try_def)
  next
    case (Inr mr)
    obtain mo r where "mr = (mo, r)" by (cases mr)
    with Pair Inr have "load_model st p = (Inr (mo, r), q)" by simp
    from health_check_loaded [OF this, of lib] assms show ?thesis
      by (auto split: sum.splits)
  qed
qed



lemma health_check_drifted:
  "health_check const_lib (store_with_results (Finite 7) drifted_results) initial_proc
     = (Inr \<lparr>status = ''healthy'', model_loaded = True, n_features = 17,
             test_mae = Some (Finite (84 / 100))\<rparr>,
        full_proc (Finite 7) drifted_results)"
proof -
  have "test_mae_of drifted_results = Inr (JNum (Finite (84 / 100)))"
    by (simp add: test_mae_of_def drifted_results_def)
  moreover have "validate_test_mae const_lib (JNum (Finite (84 / 100))) = Inr (Some (Finite (84 / 100)))"
    by (simp add: const_lib_def)
  ultimately show ?thesis
    using health_check_loaded [OF load_model_full, of const_lib "Finite 7" drifted_results]
    by (simp add: length_FEATURE_COLUMNS)
qed

subsection \<open>Absent results metadata\<close>




subsection \<open>The feature count of the health response\<close>

text \<open>
  C10. Every health response that is not an error reports \<open>n_features\<close> as the length
  of \<open>FEATURE_COLUMNS\<close>, which is 17, whatever the store and the cache hold: also
  without results metadata, and with metadata that records another count.
\<close>

theorem health_n_features_from_schema:
  assumes "health_check lib st p = (Inr resp, p1)"
  shows "n_features resp = length FEATURE_COLUMNS \<and> n_features resp = 17"
  using health_check_features [OF assms] by (simp add: length_FEATURE_COLUMNS)


theorem health_n_features_from_schema_witness:
  "health_check const_lib (store_with_results (Finite 7) drifted_results) initial_proc
     = (Inr \<lparr>status = ''healthy'', model_loaded = True, n_features = 17,
             test_mae = Some (Finite (84 / 100))\<rparr>,
        full_proc (Finite 7) drifted_results)
   \<and> dict_get drifted_results ''n_features'' JNull = Inr (JInt 5)
   \<and> n_features \<lparr>status = ''healthy'', model_loaded = True, n_features = 17,
                  test_mae = Some (Finite (84 / 100))\<rparr> = length FEATURE_COLUMNS"
proof -
  have d: "dict_get drifted_results ''n_features'' JNull = Inr (JInt 5)"
    by (simp add: drifted_results_def)
  from health_check_drifted d
       conjunct1 [OF health_n_features_from_schema [OF health_check_drifted]]
  show ?thesis by (intro conjI)
qed



section \<open>Properties of the trainer\<close>

subsection \<open>Shared facts\<close>

lemma split_entry_Inr:
  assumes "split_entry T y pred = Inr entry"
  shows "\<exists>mae mse rmse r2. mean_absolute_error T y pred = Inr mae
           \<and> mean_squared_error T y pred = Inr mse
           \<and> pow_half T mse = Inr rmse
           \<and> r2_score T y pred = Inr r2
           \<and> entry = [(''mae'', mae), (''rmse'', rmse), (''r2'', r2)]"
  using assms by (auto simp: split_entry_def split: sum.splits)

lemma evaluate_model_Inr:
  assumes "evaluate_model T model X_train y_train X_val y_val X_test y_test feature_cols
             = Inr results"
  shows "\<exists>p_tr p_va p_te e_tr e_va e_te.
           xgb_predict T model X_train = Inr p_tr
         \<and> xgb_predict T model X_val = Inr p_va
         \<and> xgb_predict T model X_test = Inr p_te
         \<and> split_entry T y_train p_tr = Inr e_tr
         \<and> split_entry T y_val p_va = Inr e_va
         \<and> split_entry T y_test p_te = Inr e_te
         \<and> results = [(''train'', e_tr), (''val'', e_va), (''test'', e_te)]"
  using assms by (auto simp: evaluate_model_def Let_def split: sum.splits)

lemma evaluate_example:
  "evaluate_model example_toolkit (Finite 3) [[PyInt 1]] [PyInt 3] [[PyInt 2]] [PyInt 4]
     [[PyInt 3]] [PyInt 5] FEATURE_COLUMNS = Inr example_evaluation"
  by (simp add: evaluate_model_def split_entry_def importance_report_def example_toolkit_def
      example_evaluation_def python_pow_half_def length_FEATURE_COLUMNS)

lemma evaluate_sqrt2:
  "evaluate_model sqrt2_toolkit (Finite 3) [[PyInt 1], [PyInt 2]] [PyInt 5, PyInt 3]
     [[PyInt 1], [PyInt 2]] [PyInt 5, PyInt 3] [[PyInt 1], [PyInt 2]] [PyInt 5, PyInt 3]
     FEATURE_COLUMNS = Inr sqrt2_evaluation"
  by (simp add: evaluate_model_def split_entry_def importance_report_def sqrt2_toolkit_def
      example_toolkit_def sqrt2_evaluation_def python_pow_half_def length_FEATURE_COLUMNS)


lemma main_unfold:
  "main T fs =
     (case load_features T of
        Inl e \<Rightarrow> (Inl e, fs)
      | Inr (train_df, val_df, test_df) \<Rightarrow>
     (case prepare_features T train_df val_df test_df of
        Inl e \<Rightarrow> (Inl e, fs)
      | Inr (X_train, y_train, X_val, y_val, X_test, y_test) \<Rightarrow>
     (case train_model T X_train y_train X_val y_val XGBOOST_PARAMS of
        Inl e \<Rightarrow> (Inl e, fs)
      | Inr model \<Rightarrow>
     (case evaluate_model T model X_train y_train X_val y_val X_test y_test FEATURE_COLUMNS of
        Inl e \<Rightarrow> (Inl e, fs)
      | Inr results \<Rightarrow>
          save_model model FEATURE_COLUMNS results MODEL_FILE FEATURE_LIST_FILE RESULTS_FILE fs))))"
  by (simp add: main_def Let_def split: sum.splits prod.splits)

lemma feature_list_text:
  "str_join [CHR 0x0A] FEATURE_COLUMNS =
     ''hour_sin'' @ [CHR 0x0A] @ ''hour_cos'' @ [CHR 0x0A] @ ''dow_sin'' @ [CHR 0x0A]
     @ ''dow_cos'' @ [CHR 0x0A] @ ''month_sin'' @ [CHR 0x0A] @ ''month_cos'' @ [CHR 0x0A]
     @ ''lag_1h'' @ [CHR 0x0A] @ ''lag_24h'' @ [CHR 0x0A] @ ''lag_168h'' @ [CHR 0x0A]
     @ ''diff_24h'' @ [CHR 0x0A] @ ''rolling_7d_mean'' @ [CHR 0x0A] @ ''rolling_7d_std''
     @ [CHR 0x0A] @ ''rolling_14d_mean'' @ [CHR 0x0A] @ ''rolling_7d_cv'' @ [CHR 0x0A]
     @ ''zone_mean_demand'' @ [CHR 0x0A] @ ''zone_rank'' @ [CHR 0x0A] @ ''zone_is_top50''"
  by (simp add: FEATURE_COLUMNS_def)

lemma results_with_meta_schema:
  "results_with_meta FEATURE_COLUMNS results =
     JObj [(''model_type'', JStr ''XGBoost''),
           (''n_features'', JInt 17),
           (''features'', JArr (map JStr FEATURE_COLUMNS)),
           (''hyperparameters'', JObj XGBOOST_PARAMS),
           (''metrics'', json_of_metrics results)]"
  by (simp add: results_with_meta_def length_FEATURE_COLUMNS)

lemma save_model_run:
  assumes "st MODELS_DIR = None \<or> st MODELS_DIR = Some Directory"
    and "st MODEL_FILE \<noteq> Some Directory" and "st FEATURE_LIST_FILE \<noteq> Some Directory"
    and "st RESULTS_FILE \<noteq> Some Directory"
  shows "save_model model cols results MODEL_FILE FEATURE_LIST_FILE RESULTS_FILE (st, evs) =
           (Inr (),
            (st(MODELS_DIR \<mapsto> Directory,
                MODEL_FILE \<mapsto> Pickled (Some model),
                FEATURE_LIST_FILE \<mapsto> Text (str_join [CHR 0x0A] cols),
                RESULTS_FILE \<mapsto> JsonDoc (results_with_meta cols results)),
             evs @ [Mkdir MODELS_DIR, Write MODEL_FILE, Write FEATURE_LIST_FILE,
                    Write RESULTS_FILE]))"
proof -
  let ?s1 = "st(MODELS_DIR \<mapsto> Directory)"
  have m: "mkdir_exist_ok MODELS_DIR (st, evs) = (Inr (), (?s1, evs @ [Mkdir MODELS_DIR]))"
    using assms(1) by (auto simp: mkdir_exist_ok_def fun_upd_idem)
  let ?s2 = "?s1(MODEL_FILE \<mapsto> Pickled (Some model))"
  have w1: "write_file MODEL_FILE (Pickled (Some model)) (?s1, evs @ [Mkdir MODELS_DIR])
              = (Inr (), (?s2, evs @ [Mkdir MODELS_DIR, Write MODEL_FILE]))"
    using assms(2) by (simp add: write_file_def)
  let ?s3 = "?s2(FEATURE_LIST_FILE \<mapsto> Text (str_join [CHR 0x0A] cols))"
  have w2: "write_file FEATURE_LIST_FILE (Text (str_join [CHR 0x0A] cols))
                (?s2, evs @ [Mkdir MODELS_DIR, Write MODEL_FILE])
              = (Inr (), (?s3, evs @ [Mkdir MODELS_DIR, Write MODEL_FILE, Write FEATURE_LIST_FILE]))"
    using assms(3) by (simp add: write_file_def)
  have w3: "write_file RESULTS_FILE (JsonDoc (results_with_meta cols results))
                (?s3, evs @ [Mkdir MODELS_DIR, Write MODEL_FILE, Write FEATURE_LIST_FILE])
              = (Inr (), (?s3(RESULTS_FILE \<mapsto> JsonDoc (results_with_meta cols results)),
                   evs @ [Mkdir MODELS_DIR, Write MODEL_FILE, Write FEATURE_LIST_FILE,
                          Write RESULTS_FILE]))"
    using assms(4) by (simp add: write_file_def)
  show ?thesis
    by (simp only: save_model_def m w1 w2 w3 prod.case sum.case)
qed


lemma main_example:
  "main example_toolkit fs =
     save_model (Finite 3) FEATURE_COLUMNS example_evaluation
       MODEL_FILE FEATURE_LIST_FILE RESULTS_FILE fs"
proof -
  have l: "load_features example_toolkit = Inr ((), (), ())"
    by (simp add: example_toolkit_def)
  have p: "prepare_features example_toolkit () () ()
             = Inr ([[PyInt 1]], [PyInt 3], [[PyInt 2]], [PyInt 4], [[PyInt 3]], [PyInt 5])"
    by (simp add: example_toolkit_def)
  have t: "train_model example_toolkit [[PyInt 1]] [PyInt 3] [[PyInt 2]] [PyInt 4] XGBOOST_PARAMS
             = Inr (Finite 3)"
    by (simp add: example_toolkit_def train_model_def)
  show ?thesis
    by (simp add: main_unfold l p t evaluate_example)
qed

subsection \<open>Evaluation\<close>

text \<open>
  C7, as stated, fails on the square. For splits whose targets are 5 and 3 and a model
  that predicts 3, the mean squared error is 2 and the recorded \<open>rmse\<close> is the float
  \<open>2.0 ** 0.5\<close>, that is \<open>6369051672525773 / 2 ** 52\<close>: it is not the square root
  of 2, and its square is not 2.
\<close>

theorem rmse_square_is_not_mse_counterexample:
  "evaluate_model sqrt2_toolkit (Finite 3) [[PyInt 1], [PyInt 2]] [PyInt 5, PyInt 3]
     [[PyInt 1], [PyInt 2]] [PyInt 5, PyInt 3] [[PyInt 1], [PyInt 2]] [PyInt 5, PyInt 3]
     FEATURE_COLUMNS = Inr sqrt2_evaluation
   \<and> mean_squared_error sqrt2_toolkit [PyInt 5, PyInt 3] [Finite 3, Finite 3] = Inr (Finite 2)
   \<and> map_of sqrt2_evaluation ''test''
       = Some [(''mae'', Finite 1),
               (''rmse'', Finite (6369051672525773 / 4503599627370496)),
               (''r2'', Finite (- 1))]
   \<and> (6369051672525773 / 4503599627370496 :: real)\<^sup>2 \<noteq> 2
   \<and> (6369051672525773 / 4503599627370496 :: real) \<noteq> sqrt 2"
proof -
  have sq: "(6369051672525773 / 4503599627370496 :: real)\<^sup>2 \<noteq> 2"
    by (simp add: power2_eq_square)
  have "(6369051672525773 / 4503599627370496 :: real) \<noteq> sqrt 2"
  proof
    assume "(6369051672525773 / 4503599627370496 :: real) = sqrt 2"
    then have "(6369051672525773 / 4503599627370496 :: real)\<^sup>2 = (sqrt 2)\<^sup>2"
      by (simp only:)
    with sq show False by simp
  qed
  moreover have "mean_squared_error sqrt2_toolkit [PyInt 5, PyInt 3] [Finite 3, Finite 3]
                   = Inr (Finite 2)"
    by (simp add: sqrt2_toolkit_def)
  moreover have "map_of sqrt2_evaluation ''test''
       = Some [(''mae'', Finite 1),
               (''rmse'', Finite (6369051672525773 / 4503599627370496)),
               (''r2'', Finite (- 1))]"
    by (simp add: sqrt2_evaluation_def)
  ultimately show ?thesis
    using evaluate_sqrt2 sq by (intro conjI)
qed

text \<open>
  C7, amended. When \<open>evaluate_model\<close> returns, there are predictions for the train,
  validation and test splits, each computed once, such that for every split the recorded
  entries are, in this order, \<open>mae\<close>, \<open>rmse\<close> and \<open>r2\<close>, where \<open>mae\<close>, the
  mean squared error and \<open>r2\<close> are all computed from that split's targets and that same
  prediction, and \<open>rmse\<close> is the float that \<open>** 0.5\<close> returns for that mean squared
  error. The splits are recorded in the order train, validation, test.
\<close>

theorem rmse_from_same_predictions:
  assumes "evaluate_model T model X_train y_train X_val y_val X_test y_test feature_cols
             = Inr results"
  shows "\<exists>p_tr p_va p_te a_tr a_va a_te q_tr q_va q_te s_tr s_va s_te r_tr r_va r_te.
           xgb_predict T model X_train = Inr p_tr
         \<and> xgb_predict T model X_val = Inr p_va
         \<and> xgb_predict T model X_test = Inr p_te
         \<and> mean_absolute_error T y_train p_tr = Inr a_tr
         \<and> mean_squared_error T y_train p_tr = Inr q_tr
         \<and> pow_half T q_tr = Inr s_tr
         \<and> r2_score T y_train p_tr = Inr r_tr
         \<and> mean_absolute_error T y_val p_va = Inr a_va
         \<and> mean_squared_error T y_val p_va = Inr q_va
         \<and> pow_half T q_va = Inr s_va
         \<and> r2_score T y_val p_va = Inr r_va
         \<and> mean_absolute_error T y_test p_te = Inr a_te
         \<and> mean_squared_error T y_test p_te = Inr q_te
         \<and> pow_half T q_te = Inr s_te
         \<and> r2_score T y_test p_te = Inr r_te
         \<and> results =
             [(''train'', [(''mae'', a_tr), (''rmse'', s_tr), (''r2'', r_tr)]),
              (''val'', [(''mae'', a_va), (''rmse'', s_va), (''r2'', r_va)]),
              (''test'', [(''mae'', a_te), (''rmse'', s_te), (''r2'', r_te)])]"
proof -
  from evaluate_model_Inr [OF assms] obtain p_tr p_va p_te e_tr e_va e_te where
    p: "xgb_predict T model X_train = Inr p_tr" "xgb_predict T model X_val = Inr p_va"
       "xgb_predict T model X_test = Inr p_te"
    and e: "split_entry T y_train p_tr = Inr e_tr" "split_entry T y_val p_va = Inr e_va"
       "split_entry T y_test p_te = Inr e_te"
    and r: "results = [(''train'', e_tr), (''val'', e_va), (''test'', e_te)]"
    by blast
  from split_entry_Inr [OF e(1)] obtain a_tr q_tr s_tr r_tr where
    tr: "mean_absolute_error T y_train p_tr = Inr a_tr" "mean_squared_error T y_train p_tr = Inr q_tr"
        "pow_half T q_tr = Inr s_tr" "r2_score T y_train p_tr = Inr r_tr"
        "e_tr = [(''mae'', a_tr), (''rmse'', s_tr), (''r2'', r_tr)]"
    by blast
  from split_entry_Inr [OF e(2)] obtain a_va q_va s_va r_va where
    va: "mean_absolute_error T y_val p_va = Inr a_va" "mean_squared_error T y_val p_va = Inr q_va"
        "pow_half T q_va = Inr s_va" "r2_score T y_val p_va = Inr r_va"
        "e_va = [(''mae'', a_va), (''rmse'', s_va), (''r2'', r_va)]"
    by blast
  from split_entry_Inr [OF e(3)] obtain a_te q_te s_te r_te where
    te: "mean_absolute_error T y_test p_te = Inr a_te" "mean_squared_error T y_test p_te = Inr q_te"
        "pow_half T q_te = Inr s_te" "r2_score T y_test p_te = Inr r_te"
        "e_te = [(''mae'', a_te), (''rmse'', s_te), (''r2'', r_te)]"
    by blast
  have res: "results =
             [(''train'', [(''mae'', a_tr), (''rmse'', s_tr), (''r2'', r_tr)]),
              (''val'', [(''mae'', a_va), (''rmse'', s_va), (''r2'', r_va)]),
              (''test'', [(''mae'', a_te), (''rmse'', s_te), (''r2'', r_te)])]"
    using r tr(5) va(5) te(5) by simp
  show ?thesis
    apply (rule exI [of _ p_tr], rule exI [of _ p_va], rule exI [of _ p_te])
    apply (rule exI [of _ a_tr], rule exI [of _ a_va], rule exI [of _ a_te])
    apply (rule exI [of _ q_tr], rule exI [of _ q_va], rule exI [of _ q_te])
    apply (rule exI [of _ s_tr], rule exI [of _ s_va], rule exI [of _ s_te])
    apply (rule exI [of _ r_tr], rule exI [of _ r_va], rule exI [of _ r_te])
    using p tr(1-4) va(1-4) te(1-4) res by (intro conjI)
qed

theorem rmse_from_same_predictions_witness:
  "evaluate_model example_toolkit (Finite 3) [[PyInt 1]] [PyInt 3] [[PyInt 2]] [PyInt 4]
     [[PyInt 3]] [PyInt 5] FEATURE_COLUMNS = Inr example_evaluation
   \<and> (\<exists>a q s r. example_evaluation ! 2 = (''test'', [(''mae'', a), (''rmse'', s), (''r2'', r)])
              \<and> mean_squared_error example_toolkit [PyInt 5] [Finite 3] = Inr q
              \<and> pow_half example_toolkit q = Inr s
              \<and> q = Finite 4 \<and> s = Finite 2)"
proof -
  from rmse_from_same_predictions [OF evaluate_example]
  obtain p_te a_te q_te s_te r_te e1 e2 where
    pr: "xgb_predict example_toolkit (Finite 3) [[PyInt 3]] = Inr p_te"
    and q: "mean_squared_error example_toolkit [PyInt 5] p_te = Inr q_te"
    and s: "pow_half example_toolkit q_te = Inr s_te"
    and r: "example_evaluation
              = [e1, e2, (''test'', [(''mae'', a_te), (''rmse'', s_te), (''r2'', r_te)])]"
    by blast
  from pr have p3: "p_te = [Finite 3]"
    by (simp add: example_toolkit_def)
  from q have q4: "q_te = Finite 4"
    by (simp add: example_toolkit_def)
  from s q4 have s2: "s_te = Finite 2"
    by (simp add: example_toolkit_def python_pow_half_def)
  have "example_evaluation ! 2 = (''test'', [(''mae'', a_te), (''rmse'', s_te), (''r2'', r_te)])"
    by (subst r) simp
  with q s p3 q4 s2 evaluate_example show ?thesis
    by blast
qed

subsection \<open>A failed run\<close>

text \<open>
  C8. When loading the datasets, preparing them, fitting or evaluating raises, \<open>main\<close>
  raises the same exception and leaves the store, and the log of accesses to it, as they
  were: nothing is created, written or removed. And whenever \<open>main\<close> has touched the
  store or its log, loading, preparation, fit and evaluation had all returned, and what
  \<open>main\<close> did is what \<open>save_model\<close> does with the trained model and its results.
\<close>

theorem main_failure_writes_nothing:
  "(load_features T = Inl e \<longrightarrow> main T fs = (Inl e, fs))
   \<and> (load_features T = Inr (train_df, val_df, test_df)
        \<and> prepare_features T train_df val_df test_df = Inl e
        \<longrightarrow> main T fs = (Inl e, fs))
   \<and> (load_features T = Inr (train_df, val_df, test_df)
        \<and> prepare_features T train_df val_df test_df
            = Inr (X_train, y_train, X_val, y_val, X_test, y_test)
        \<and> train_model T X_train y_train X_val y_val XGBOOST_PARAMS = Inl e
        \<longrightarrow> main T fs = (Inl e, fs))
   \<and> (load_features T = Inr (train_df, val_df, test_df)
        \<and> prepare_features T train_df val_df test_df
            = Inr (X_train, y_train, X_val, y_val, X_test, y_test)
        \<and> train_model T X_train y_train X_val y_val XGBOOST_PARAMS = Inr model
        \<and> evaluate_model T model X_train y_train X_val y_val X_test y_test FEATURE_COLUMNS
            = Inl e
        \<longrightarrow> main T fs = (Inl e, fs))
   \<and> (main T fs \<noteq> (fst (main T fs), fs) \<longrightarrow>
        (\<exists>a b c X1 y1 X2 y2 X3 y3 mdl results.
            load_features T = Inr (a, b, c)
          \<and> prepare_features T a b c = Inr (X1, y1, X2, y2, X3, y3)
          \<and> train_model T X1 y1 X2 y2 XGBOOST_PARAMS = Inr mdl
          \<and> evaluate_model T mdl X1 y1 X2 y2 X3 y3 FEATURE_COLUMNS = Inr results
          \<and> main T fs
              = save_model mdl FEATURE_COLUMNS results MODEL_FILE FEATURE_LIST_FILE RESULTS_FILE fs))"
proof -
  have last: "\<exists>a b c X1 y1 X2 y2 X3 y3 mdl results.
            load_features T = Inr (a, b, c)
          \<and> prepare_features T a b c = Inr (X1, y1, X2, y2, X3, y3)
          \<and> train_model T X1 y1 X2 y2 XGBOOST_PARAMS = Inr mdl
          \<and> evaluate_model T mdl X1 y1 X2 y2 X3 y3 FEATURE_COLUMNS = Inr results
          \<and> main T fs
              = save_model mdl FEATURE_COLUMNS results MODEL_FILE FEATURE_LIST_FILE RESULTS_FILE fs"
    if "main T fs \<noteq> (fst (main T fs), fs)"
    using that unfolding main_unfold
    by (auto split: sum.splits prod.splits)
  show ?thesis
    using last by (auto simp: main_unfold)
qed


theorem main_failure_writes_nothing_witness:
  "load_features failing_toolkit = Inr ((), (), ())
   \<and> prepare_features failing_toolkit () () ()
       = Inr ([[PyInt 1]], [PyInt 3], [[PyInt 2]], [PyInt 4], [[PyInt 3]], [PyInt 5])
   \<and> train_model failing_toolkit [[PyInt 1]] [PyInt 3] [[PyInt 2]] [PyInt 4] XGBOOST_PARAMS
       = Inl (LibraryError ''XGBoostError'')
   \<and> main failing_toolkit (store_with_results (Finite 1) example_results, [])
       = (Inl (LibraryError ''XGBoostError''), (store_with_results (Finite 1) example_results, []))"
proof -
  have h: "load_features failing_toolkit = Inr ((), (), ())
   \<and> prepare_features failing_toolkit () () ()
       = Inr ([[PyInt 1]], [PyInt 3], [[PyInt 2]], [PyInt 4], [[PyInt 3]], [PyInt 5])
   \<and> train_model failing_toolkit [[PyInt 1]] [PyInt 3] [[PyInt 2]] [PyInt 4] XGBOOST_PARAMS
       = Inl (LibraryError ''XGBoostError'')"
    by (simp add: failing_toolkit_def example_toolkit_def train_model_def)
  note t = main_failure_writes_nothing
    [where T = failing_toolkit and e = "LibraryError ''XGBoostError''"
       and fs = "(store_with_results (Finite 1) example_results, [])"
       and train_df = "()" and val_df = "()" and test_df = "()"
       and X_train = "[[PyInt 1]]" and y_train = "[PyInt 3]"
       and X_val = "[[PyInt 2]]" and y_val = "[PyInt 4]"
       and X_test = "[[PyInt 3]]" and y_test = "[PyInt 5]"]
  have "main failing_toolkit (store_with_results (Finite 1) example_results, [])
       = (Inl (LibraryError ''XGBoostError''), (store_with_results (Finite 1) example_results, []))"
    by (rule mp [OF conjunct1 [OF conjunct2 [OF conjunct2 [OF t]]] h])
  with h show ?thesis by (intro conjI) (elim conjE, assumption)+
qed

subsection \<open>Writing the artifacts\<close>

text \<open>
  C9. Called as \<open>main\<close> calls it, on a store where the models directory is absent or
  is a directory and none of the three files is a directory, \<open>save_model\<close> succeeds;
  it first makes sure of the directory, then writes the model file, then the feature list,
  then the results, in this order and nothing else; afterwards the directory exists, the
  model file holds the pickled model, the feature list holds the 17 names of
  \<open>FEATURE_COLUMNS\<close> in order, joined by newlines, and the results file holds the JSON
  object with \<open>model_type\<close>, \<open>n_features\<close> = 17, the names in order,
  \<open>XGBOOST_PARAMS\<close> as they are, and the metrics: for results of the three splits,
  as \<open>evaluate_model\<close> returns them, an object with the entries \<open>train\<close>,
  \<open>val\<close> and \<open>test\<close>, each an object with the numbers \<open>mae\<close>, \<open>rmse\<close>
  and \<open>r2\<close> of that split.
\<close>

theorem save_model_writes_in_order:
  assumes "st MODELS_DIR = None \<or> st MODELS_DIR = Some Directory"
    and "\<forall>f \<in> {MODEL_FILE, FEATURE_LIST_FILE, RESULTS_FILE}. st f \<noteq> Some Directory"
  shows "length FEATURE_COLUMNS = 17
       \<and> save_model model FEATURE_COLUMNS results MODEL_FILE FEATURE_LIST_FILE RESULTS_FILE
           (st, evs) =
           (Inr (),
            (st(MODELS_DIR \<mapsto> Directory,
                MODEL_FILE \<mapsto> Pickled (Some model),
                FEATURE_LIST_FILE \<mapsto> Text
                  (''hour_sin'' @ [CHR 0x0A] @ ''hour_cos'' @ [CHR 0x0A] @ ''dow_sin''
                   @ [CHR 0x0A] @ ''dow_cos'' @ [CHR 0x0A] @ ''month_sin'' @ [CHR 0x0A]
                   @ ''month_cos'' @ [CHR 0x0A] @ ''lag_1h'' @ [CHR 0x0A] @ ''lag_24h''
                   @ [CHR 0x0A] @ ''lag_168h'' @ [CHR 0x0A] @ ''diff_24h'' @ [CHR 0x0A]
                   @ ''rolling_7d_mean'' @ [CHR 0x0A] @ ''rolling_7d_std'' @ [CHR 0x0A]
                   @ ''rolling_14d_mean'' @ [CHR 0x0A] @ ''rolling_7d_cv'' @ [CHR 0x0A]
                   @ ''zone_mean_demand'' @ [CHR 0x0A] @ ''zone_rank'' @ [CHR 0x0A]
                   @ ''zone_is_top50''),
                RESULTS_FILE \<mapsto> JsonDoc
                  (JObj [(''model_type'', JStr ''XGBoost''),
                         (''n_features'', JInt 17),
                         (''features'', JArr (map JStr FEATURE_COLUMNS)),
                         (''hyperparameters'', JObj XGBOOST_PARAMS),
                         (''metrics'', json_of_metrics results)])),
             evs @ [Mkdir MODELS_DIR, Write MODEL_FILE, Write FEATURE_LIST_FILE,
                    Write RESULTS_FILE]))
       \<and> json_of_metrics
            [(''train'', [(''mae'', a_tr), (''rmse'', s_tr), (''r2'', r_tr)]),
             (''val'', [(''mae'', a_va), (''rmse'', s_va), (''r2'', r_va)]),
             (''test'', [(''mae'', a_te), (''rmse'', s_te), (''r2'', r_te)])]
           = JObj [(''train'', JObj [(''mae'', JNum a_tr), (''rmse'', JNum s_tr),
                                     (''r2'', JNum r_tr)]),
                   (''val'', JObj [(''mae'', JNum a_va), (''rmse'', JNum s_va),
                                   (''r2'', JNum r_va)]),
                   (''test'', JObj [(''mae'', JNum a_te), (''rmse'', JNum s_te),
                                    (''r2'', JNum r_te)])]
       \<and> map JStr FEATURE_COLUMNS
           = [JStr ''hour_sin'', JStr ''hour_cos'', JStr ''dow_sin'', JStr ''dow_cos'',
              JStr ''month_sin'', JStr ''month_cos'', JStr ''lag_1h'', JStr ''lag_24h'',
              JStr ''lag_168h'', JStr ''diff_24h'', JStr ''rolling_7d_mean'',
              JStr ''rolling_7d_std'', JStr ''rolling_14d_mean'', JStr ''rolling_7d_cv'',
              JStr ''zone_mean_demand'', JStr ''zone_rank'', JStr ''zone_is_top50'']"
proof -
  from assms(2) have "st MODEL_FILE \<noteq> Some Directory" "st FEATURE_LIST_FILE \<noteq> Some Directory"
    "st RESULTS_FILE \<noteq> Some Directory"
    by simp_all
  from save_model_run [OF assms(1) this, of model FEATURE_COLUMNS results evs]
  have run: "save_model model FEATURE_COLUMNS results MODEL_FILE FEATURE_LIST_FILE RESULTS_FILE
           (st, evs) =
           (Inr (),
            (st(MODELS_DIR \<mapsto> Directory,
                MODEL_FILE \<mapsto> Pickled (Some model),
                FEATURE_LIST_FILE \<mapsto> Text
                  (''hour_sin'' @ [CHR 0x0A] @ ''hour_cos'' @ [CHR 0x0A] @ ''dow_sin''
                   @ [CHR 0x0A] @ ''dow_cos'' @ [CHR 0x0A] @ ''month_sin'' @ [CHR 0x0A]
                   @ ''month_cos'' @ [CHR 0x0A] @ ''lag_1h'' @ [CHR 0x0A] @ ''lag_24h''
                   @ [CHR 0x0A] @ ''lag_168h'' @ [CHR 0x0A] @ ''diff_24h'' @ [CHR 0x0A]
                   @ ''rolling_7d_mean'' @ [CHR 0x0A] @ ''rolling_7d_std'' @ [CHR 0x0A]
                   @ ''rolling_14d_mean'' @ [CHR 0x0A] @ ''rolling_7d_cv'' @ [CHR 0x0A]
                   @ ''zone_mean_demand'' @ [CHR 0x0A] @ ''zone_rank'' @ [CHR 0x0A]
                   @ ''zone_is_top50''),
                RESULTS_FILE \<mapsto> JsonDoc
                  (JObj [(''model_type'', JStr ''XGBoost''),
                         (''n_features'', JInt 17),
                         (''features'', JArr (map JStr FEATURE_COLUMNS)),
                         (''hyperparameters'', JObj XGBOOST_PARAMS),
                         (''metrics'', json_of_metrics results)])),
             evs @ [Mkdir MODELS_DIR, Write MODEL_FILE, Write FEATURE_LIST_FILE,
                    Write RESULTS_FILE]))"
    by (simp only: feature_list_text results_with_meta_schema)
  have met: "json_of_metrics
            [(''train'', [(''mae'', a_tr), (''rmse'', s_tr), (''r2'', r_tr)]),
             (''val'', [(''mae'', a_va), (''rmse'', s_va), (''r2'', r_va)]),
             (''test'', [(''mae'', a_te), (''rmse'', s_te), (''r2'', r_te)])]
           = JObj [(''train'', JObj [(''mae'', JNum a_tr), (''rmse'', JNum s_tr),
                                     (''r2'', JNum r_tr)]),
                   (''val'', JObj [(''mae'', JNum a_va), (''rmse'', JNum s_va),
                                   (''r2'', JNum r_va)]),
                   (''test'', JObj [(''mae'', JNum a_te), (''rmse'', JNum s_te),
                                    (''r2'', JNum r_te)])]"
    by (simp add: json_of_metrics_def)
  have names: "map JStr FEATURE_COLUMNS
           = [JStr ''hour_sin'', JStr ''hour_cos'', JStr ''dow_sin'', JStr ''dow_cos'',
              JStr ''month_sin'', JStr ''month_cos'', JStr ''lag_1h'', JStr ''lag_24h'',
              JStr ''lag_168h'', JStr ''diff_24h'', JStr ''rolling_7d_mean'',
              JStr ''rolling_7d_std'', JStr ''rolling_14d_mean'', JStr ''rolling_7d_cv'',
              JStr ''zone_mean_demand'', JStr ''zone_rank'', JStr ''zone_is_top50'']"
    by (simp add: FEATURE_COLUMNS_def)
  from length_FEATURE_COLUMNS run met names show ?thesis
    by (intro conjI)
qed

theorem save_model_writes_in_order_witness:
  "(Map.empty :: pyfloat store) MODELS_DIR = None
   \<and> snd (snd (main example_toolkit (Map.empty, [])))
       = [Mkdir MODELS_DIR, Write MODEL_FILE, Write FEATURE_LIST_FILE, Write RESULTS_FILE]
   \<and> fst (snd (main example_toolkit (Map.empty, []))) MODEL_FILE = Some (Pickled (Some (Finite 3)))
   \<and> fst (snd (main example_toolkit (Map.empty, []))) MODELS_DIR = Some Directory
   \<and> fst (snd (main example_toolkit (Map.empty, []))) RESULTS_FILE
       = Some (JsonDoc
           (JObj [(''model_type'', JStr ''XGBoost''),
                  (''n_features'', JInt 17),
                  (''features'',
                   JArr [JStr ''hour_sin'', JStr ''hour_cos'', JStr ''dow_sin'',
                         JStr ''dow_cos'', JStr ''month_sin'', JStr ''month_cos'',
                         JStr ''lag_1h'', JStr ''lag_24h'', JStr ''lag_168h'',
                         JStr ''diff_24h'', JStr ''rolling_7d_mean'', JStr ''rolling_7d_std'',
                         JStr ''rolling_14d_mean'', JStr ''rolling_7d_cv'',
                         JStr ''zone_mean_demand'', JStr ''zone_rank'',
                         JStr ''zone_is_top50'']),
                  (''hyperparameters'',
                   JObj [(''n_estimators'', JInt 500),
                         (''max_depth'', JInt 6),
                         (''learning_rate'', JNum (Finite (1 / 10))),
                         (''subsample'', JNum (Finite (8 / 10))),
                         (''colsample_bytree'', JNum (Finite (8 / 10))),
                         (''random_state'', JInt 42),
                         (''n_jobs'', JInt (- 1))]),
                  (''metrics'',
                   JObj [(''train'', JObj [(''mae'', JNum (Finite 1)),
                                           (''rmse'', JNum (Finite 2)),
                                           (''r2'', JNum (Finite (1 / 2)))]),
                         (''val'', JObj [(''mae'', JNum (Finite 1)),
                                         (''rmse'', JNum (Finite 2)),
                                         (''r2'', JNum (Finite (1 / 2)))]),
                         (''test'', JObj [(''mae'', JNum (Finite 1)),
                                          (''rmse'', JNum (Finite 2)),
                                          (''r2'', JNum (Finite (1 / 2)))])])]))"
proof -
  let ?st = "Map.empty :: pyfloat store"
  have h1: "?st MODELS_DIR = None \<or> ?st MODELS_DIR = Some Directory"
    by simp
  have h2: "\<forall>f \<in> {MODEL_FILE, FEATURE_LIST_FILE, RESULTS_FILE}. ?st f \<noteq> Some Directory"
    by simp
  note w = save_model_writes_in_order
    [OF h1 h2, of "Finite 3" example_evaluation "[]"
       "Finite 1" "Finite 2" "Finite (1 / 2)" "Finite 1" "Finite 2" "Finite (1 / 2)"
       "Finite 1" "Finite 2" "Finite (1 / 2)"]
  note t = conjunct1 [OF conjunct2 [OF w]]
  have met: "json_of_metrics example_evaluation
           = JObj [(''train'', JObj [(''mae'', JNum (Finite 1)), (''rmse'', JNum (Finite 2)),
                                     (''r2'', JNum (Finite (1 / 2)))]),
                   (''val'', JObj [(''mae'', JNum (Finite 1)), (''rmse'', JNum (Finite 2)),
                                   (''r2'', JNum (Finite (1 / 2)))]),
                   (''test'', JObj [(''mae'', JNum (Finite 1)), (''rmse'', JNum (Finite 2)),
                                    (''r2'', JNum (Finite (1 / 2)))])]"
    using conjunct1 [OF conjunct2 [OF conjunct2 [OF w]]]
    by (simp only: example_evaluation_def)
  note names = conjunct2 [OF conjunct2 [OF conjunct2 [OF w]]]
  have m: "main example_toolkit (?st, []) =
     save_model (Finite 3) FEATURE_COLUMNS example_evaluation
       MODEL_FILE FEATURE_LIST_FILE RESULTS_FILE (?st, [])"
    by (rule main_example)
  have a: "snd (snd (main example_toolkit (?st, [])))
       = [Mkdir MODELS_DIR, Write MODEL_FILE, Write FEATURE_LIST_FILE, Write RESULTS_FILE]"
    unfolding m t by simp
  have b: "fst (snd (main example_toolkit (?st, []))) MODEL_FILE = Some (Pickled (Some (Finite 3)))"
    unfolding m t by simp
  have c: "fst (snd (main example_toolkit (?st, []))) MODELS_DIR = Some Directory"
    unfolding m t by simp
  have d: "?st MODELS_DIR = None"
    by simp
  have e: "fst (snd (main example_toolkit (?st, []))) RESULTS_FILE
       = Some (JsonDoc
           (JObj [(''model_type'', JStr ''XGBoost''),
                  (''n_features'', JInt 17),
                  (''features'', JArr (map JStr FEATURE_COLUMNS)),
                  (''hyperparameters'', JObj XGBOOST_PARAMS),
                  (''metrics'', json_of_metrics example_evaluation)]))"
    unfolding m t by simp
  from d a b c e show ?thesis
    unfolding met names XGBOOST_PARAMS_def by (intro conjI)
qed

end
